theory Spec2Isabelle
  imports Complex_Main "HOL-Library.Word"
begin

section \<open>Criteria matching of pgn-extract (lists.c)\<close>

text \<open>
  A shallow embedding of \<^verbatim>\<open>src/lists.c\<close>. A C string is modelled by the list of
  its characters before the terminating NUL, \<^verbatim>\<open>unsigned\<close> by a 32-bit word,
  a \<^verbatim>\<open>char *\<close> that may be \<^verbatim>\<open>NULL\<close> by an \<open>option\<close>, and a call of
  \<^verbatim>\<open>exit(1)\<close> by the left injection of a sum.
\<close>

subsection \<open>Routines of the C library used by lists.c\<close>

text \<open>Character classification of \<^verbatim>\<open>ctype.h\<close> in the C locale.\<close>

definition isdigit :: "char \<Rightarrow> bool" where
  "isdigit c = (48 \<le> (of_char c :: nat) \<and> (of_char c :: nat) \<le> 57)"

definition islower :: "char \<Rightarrow> bool" where
  "islower c = (97 \<le> (of_char c :: nat) \<and> (of_char c :: nat) \<le> 122)"

definition isupper :: "char \<Rightarrow> bool" where
  "isupper c = (65 \<le> (of_char c :: nat) \<and> (of_char c :: nat) \<le> 90)"

definition isalpha :: "char \<Rightarrow> bool" where
  "isalpha c = (isupper c \<or> islower c)"

definition isspace :: "char \<Rightarrow> bool" where
  "isspace c = ((of_char c :: nat) = 32 \<or> (9 \<le> (of_char c :: nat) \<and> (of_char c :: nat) \<le> 13))"

definition toupper :: "char \<Rightarrow> char" where
  "toupper c = (if islower c then char_of ((of_char c :: nat) - 32) else c)"

subsection \<open>The phonetic encoder\<close>

definition MAXSOUNDEX :: nat where
  "MAXSOUNDEX = 50"

text \<open>The table \<^verbatim>\<open>mapping\<close>, indexed by \<^verbatim>\<open>ch - 'A'\<close>.\<close>

definition mapping :: string where
  "mapping = ''01230120002455012622011202''"

text \<open>
  The \<^verbatim>\<open>while\<close> loop of \<^verbatim>\<open>soundex\<close>: \<open>sbuf\<close> holds the
  \<^verbatim>\<open>sindex\<close> characters written so far, so \<^verbatim>\<open>sindex\<close> is its length.
\<close>

fun soundex_loop :: "string \<Rightarrow> string \<Rightarrow> char \<Rightarrow> string" where
  "soundex_loop [] sbuf lastc = sbuf"
| "soundex_loop (ch # str) sbuf lastc =
     (if length sbuf < MAXSOUNDEX then
        (if isalpha ch \<and> ch \<noteq> lastc then
           (let ch' = (if islower ch then toupper ch else ch);
                translation = mapping ! ((of_char ch' :: nat) - of_char (CHR ''A''))
            in if translation \<noteq> CHR ''0'' \<and> translation \<noteq> lastc
               then soundex_loop str (sbuf @ [translation]) translation
               else soundex_loop str sbuf lastc)
         else soundex_loop str sbuf lastc)
      else sbuf)"

definition soundex :: "string \<Rightarrow> string" where
  "soundex str =
     (case str of
        [] \<Rightarrow> soundex_loop [] [] (CHR '' '')
      | c # rest \<Rightarrow>
          (let initial_letter = (if islower c then toupper c else c)
           in if initial_letter = CHR ''Y'' \<or> initial_letter = CHR ''J''
              then soundex_loop rest ''7'' (CHR '' '')
              else soundex_loop str [] (CHR '' '')))"

subsection \<open>Formatted input and string comparison\<close>

type_synonym u32 = "32 word"

text \<open>
  The digits of a \<^verbatim>\<open>%u\<close> conversion, accumulated in \<^verbatim>\<open>unsigned\<close>
  arithmetic; the second component is the unread rest of the input. C leaves the
  conversion of a number that does not fit \<^verbatim>\<open>unsigned\<close> undefined: here the low 32
  bits are kept.
\<close>

fun scan_digits :: "string \<Rightarrow> u32 \<Rightarrow> u32 \<times> string" where
  "scan_digits [] acc = (acc, [])"
| "scan_digits (c # cs) acc =
     (if isdigit c then scan_digits cs (acc * 10 + of_nat ((of_char c :: nat) - 48))
      else (acc, c # cs))"

text \<open>
  One \<^verbatim>\<open>%u\<close> directive: white space is skipped, a sign is optional, at least one
  digit is required. \<open>None\<close> is a matching failure.
\<close>

definition scan_u :: "string \<Rightarrow> (u32 \<times> string) option" where
  "scan_u s =
     (let s1 = dropWhile isspace s;
          neg = (case s1 of [] \<Rightarrow> False | c # r \<Rightarrow> c = CHR ''-'');
          s2 = (case s1 of [] \<Rightarrow> [] | c # r \<Rightarrow> if c = CHR ''-'' \<or> c = CHR ''+'' then r else s1)
      in case s2 of
           [] \<Rightarrow> None
         | d # r \<Rightarrow>
             if isdigit d
             then (case scan_digits s2 0 of (v, rest) \<Rightarrow> Some (if neg then - v else v, rest))
             else None)"

text \<open>\<^verbatim>\<open>sscanf(s, "%u", &x) == 1\<close> holds exactly when the result is \<open>Some x\<close>.\<close>

definition sscanf_u :: "string \<Rightarrow> u32 option" where
  "sscanf_u s = map_option fst (scan_u s)"

text \<open>
  \<^verbatim>\<open>sscanf(s, "%*u.%u.%u", &month, &day)\<close>: the pair holds the values of
  \<^verbatim>\<open>month\<close> and \<^verbatim>\<open>day\<close> before and after the call; a variable whose
  conversion is not reached keeps its value.
\<close>

definition sscanf_month_day :: "string \<Rightarrow> u32 \<times> u32 \<Rightarrow> u32 \<times> u32" where
  "sscanf_month_day s md =
     (case scan_u s of
        None \<Rightarrow> md
      | Some (y, r1) \<Rightarrow>
          (case r1 of
             [] \<Rightarrow> md
           | c1 # r2 \<Rightarrow>
               if c1 \<noteq> CHR ''.'' then md
               else (case scan_u r2 of
                       None \<Rightarrow> md
                     | Some (m, r3) \<Rightarrow>
                         (case r3 of
                            [] \<Rightarrow> (m, snd md)
                          | c2 # r4 \<Rightarrow>
                              if c2 \<noteq> CHR ''.'' then (m, snd md)
                              else (case scan_u r4 of
                                      None \<Rightarrow> (m, snd md)
                                    | Some (d, r5) \<Rightarrow> (m, d))))))"

text \<open>\<^verbatim>\<open>strncmp(s1, s2, n) == 0\<close>.\<close>

definition strncmp_eq :: "string \<Rightarrow> string \<Rightarrow> nat \<Rightarrow> bool" where
  "strncmp_eq s1 s2 n = (take n s1 = take n s2)"

text \<open>\<^verbatim>\<open>strstr(haystack, needle) != NULL\<close>.\<close>

fun strstr_found :: "string \<Rightarrow> string \<Rightarrow> bool" where
  "strstr_found [] needle = (needle = [])"
| "strstr_found (c # cs) needle =
     (if strncmp_eq (c # cs) needle (length needle) then True else strstr_found cs needle)"

text \<open>
  The conversion \<^verbatim>\<open>%lf\<close> and the POSIX regular expressions belong to the
  platform, not to lists.c: they are parameters. \<open>sscanf_lf s = Some v\<close> stands for
  \<^verbatim>\<open>sscanf(s, "%lf", &v) == 1\<close>, \<open>regcomp_ok p\<close> for
  \<^verbatim>\<open>regcomp(&regex, p, 0) == 0\<close> and \<open>regexec_match p s\<close> for
  \<^verbatim>\<open>regexec(&regex, s, 0, NULL, 0) == 0\<close> with the expression compiled from
  \<open>p\<close>. A \<^verbatim>\<open>double\<close> is read as the real number it denotes; the values
  that are not numbers, which \<^verbatim>\<open>%lf\<close> can produce, are left out.
\<close>

record platform =
  sscanf_lf :: "string \<Rightarrow> real option"
  regcomp_ok :: "string \<Rightarrow> bool"
  regexec_match :: "string \<Rightarrow> string \<Rightarrow> bool"

text \<open>The conversion of an \<^verbatim>\<open>unsigned\<close> to \<^verbatim>\<open>double\<close>, which is exact.\<close>

definition double_of :: "u32 \<Rightarrow> real" where
  "double_of w = real (unat w)"

subsection \<open>Data of lists.c\<close>

text \<open>
  The enumeration \<^verbatim>\<open>TagOperator\<close> is declared in a header that is not among the
  sources; its values are the ones lists.c names.
\<close>

datatype TagOperator =
  NONE | LESS_THAN | LESS_THAN_OR_EQUAL_TO | GREATER_THAN | GREATER_THAN_OR_EQUAL_TO
  | EQUAL_TO | NOT_EQUAL_TO | REGEX

record TagSelection =
  tag_string :: string
  operator :: TagOperator

text \<open>
  A \<^verbatim>\<open>StringArray\<close> is the list of its \<^verbatim>\<open>num_used_elements\<close> used
  elements, in the order of insertion.
\<close>

type_synonym StringArray = "TagSelection list"

text \<open>The fields of \<^verbatim>\<open>GlobalState\<close> that lists.c reads or writes.\<close>

record GlobalState =
  use_soundex :: bool
  tag_match_anywhere :: bool
  check_tags :: bool

text \<open>
  The tag codes are macros of a header that is not among the sources: the functions
  take them as a parameter.
\<close>

record tag_codes =
  ORIGINAL_NUMBER_OF_TAGS :: int
  EVENT_TAG :: int
  SITE_TAG :: int
  DATE_TAG :: int
  WHITE_TAG :: int
  BLACK_TAG :: int
  ANNOTATOR_TAG :: int
  WHITE_ELO_TAG :: int
  BLACK_ELO_TAG :: int
  ECO_TAG :: int
  TIME_CONTROL_TAG :: int
  FEN_TAG :: int
  PSEUDO_PLAYER_TAG :: int
  PSEUDO_ELO_TAG :: int

text \<open>
  The static variables \<^verbatim>\<open>TagLists\<close> and \<^verbatim>\<open>tag_list_length\<close>. The array
  is a function of the index; the code reads it below \<^verbatim>\<open>tag_list_length\<close> only.
\<close>

record lists_state =
  TagLists :: "int \<Rightarrow> StringArray"
  tag_list_length :: int

datatype fatal = Exit_1

definition init_tag_lists :: "tag_codes \<Rightarrow> lists_state" where
  "init_tag_lists tc = \<lparr>TagLists = (\<lambda>i. []), tag_list_length = ORIGINAL_NUMBER_OF_TAGS tc\<rparr>"

definition extend_tag_list_length :: "int \<Rightarrow> lists_state \<Rightarrow> fatal + lists_state" where
  "extend_tag_list_length new_length ls =
     (if new_length < tag_list_length ls then Inl Exit_1
      else Inr (ls\<lparr>TagLists :=
                       (\<lambda>i. if tag_list_length ls \<le> i \<and> i < new_length then []
                            else TagLists ls i),
                     tag_list_length := new_length\<rparr>))"

text \<open>
  \<^verbatim>\<open>add_to_taglist\<close> appends the string with operator \<^verbatim>\<open>NONE\<close> and returns
  its index; the allocators never return \<^verbatim>\<open>NULL\<close>.
\<close>

definition add_to_taglist :: "string \<Rightarrow> StringArray \<Rightarrow> StringArray \<times> int" where
  "add_to_taglist str list =
     (list @ [\<lparr>tag_string = str, operator = NONE\<rparr>], int (length list))"

definition soundex_tag :: "tag_codes \<Rightarrow> int \<Rightarrow> bool" where
  "soundex_tag tc tag =
     (if tag = WHITE_TAG tc \<or> tag = BLACK_TAG tc \<or> tag = PSEUDO_PLAYER_TAG tc
         \<or> tag = EVENT_TAG tc \<or> tag = SITE_TAG tc \<or> tag = ANNOTATOR_TAG tc
      then True else False)"

text \<open>
  \<^verbatim>\<open>add_tag_to_list\<close>. The pattern of the board-position tag goes to
  \<^verbatim>\<open>add_fen_pattern_match\<close>, outside lists.c, and leaves this state as it is.
\<close>

definition add_tag_to_list ::
  "tag_codes \<Rightarrow> int \<Rightarrow> string \<Rightarrow> TagOperator \<Rightarrow> GlobalState \<times> lists_state
     \<Rightarrow> fatal + (GlobalState \<times> lists_state)" where
  "add_tag_to_list tc tag tagstr opr st =
     (case (if tag \<ge> tag_list_length (snd st)
            then extend_tag_list_length (tag + 1) (snd st) else Inr (snd st)) of
        Inl e \<Rightarrow> Inl e
      | Inr ls \<Rightarrow>
          if tag = FEN_TAG tc then Inr (fst st, ls)
          else if tag \<ge> 0 \<and> tag < tag_list_length ls then
            (let gs = fst st;
                 string_to_store =
                   (if use_soundex gs \<and> soundex_tag tc tag then soundex tagstr else tagstr);
                 added = add_to_taglist string_to_store (TagLists ls tag);
                 ix = snd added;
                 stored =
                   (if ix \<ge> 0 then (fst added)[nat ix := (fst added ! nat ix)\<lparr>operator := opr\<rparr>]
                    else fst added)
             in Inr (gs\<lparr>check_tags := True\<rparr>, ls\<lparr>TagLists := (TagLists ls)(tag := stored)\<rparr>))
          else Inr (fst st, ls))"

subsection \<open>Comparators and the specialised matchers\<close>

fun relative_numeric_match :: "TagOperator \<Rightarrow> real \<Rightarrow> real \<Rightarrow> bool" where
  "relative_numeric_match LESS_THAN lhs rhs = (lhs < rhs)"
| "relative_numeric_match LESS_THAN_OR_EQUAL_TO lhs rhs = (lhs \<le> rhs)"
| "relative_numeric_match GREATER_THAN lhs rhs = (lhs > rhs)"
| "relative_numeric_match GREATER_THAN_OR_EQUAL_TO lhs rhs = (lhs \<ge> rhs)"
| "relative_numeric_match EQUAL_TO lhs rhs = (lhs = rhs)"
| "relative_numeric_match NOT_EQUAL_TO lhs rhs = (lhs \<noteq> rhs)"
| "relative_numeric_match NONE lhs rhs = False"
| "relative_numeric_match REGEX lhs rhs = False"

definition MINDATE :: u32 where
  "MINDATE = 100"

definition MAXDATE :: u32 where
  "MAXDATE = 3000"

text \<open>
  The body of the \<^verbatim>\<open>for\<close> loop of \<^verbatim>\<open>check_date\<close> for the criterion at
  \<open>list_index\<close>: the new value of \<^verbatim>\<open>wanted\<close>.
\<close>

definition check_date_step ::
  "string \<Rightarrow> u32 \<Rightarrow> real \<Rightarrow> nat \<Rightarrow> TagSelection \<Rightarrow> bool \<Rightarrow> bool" where
  "check_date_step date_string game_year encoded_game_date list_index sel wanted =
     (let prefixed = (case tag_string sel of [] \<Rightarrow> CHR 0x00 | c # r \<Rightarrow> c);
          opr = (if prefixed = CHR ''b'' then LESS_THAN
                 else if prefixed = CHR ''a'' then GREATER_THAN
                 else operator sel);
          list_string = (if prefixed = CHR ''b'' \<or> prefixed = CHR ''a''
                         then tl (tag_string sel) else tag_string sel)
      in if opr \<noteq> NONE then
           (case sscanf_u list_string of
              Some list_year \<Rightarrow>
                if game_year > MINDATE \<and> game_year < MAXDATE then
                  (case sscanf_month_day list_string (1, 1) of
                     (list_month, list_day) \<Rightarrow>
                       (let encoded_list_date =
                              double_of (10000 * list_year + 100 * list_month + list_day);
                            matches = relative_numeric_match opr encoded_game_date encoded_list_date
                        in if list_index = 0 then matches else wanted \<and> matches))
                else False
            | None \<Rightarrow> False)
         else if list_index = 0 \<or> \<not> wanted
              then strncmp_eq date_string list_string (length list_string)
              else wanted)"

fun check_date_loop ::
  "string \<Rightarrow> u32 \<Rightarrow> real \<Rightarrow> nat \<Rightarrow> StringArray \<Rightarrow> bool \<Rightarrow> bool" where
  "check_date_loop date_string game_year encoded_game_date list_index [] wanted = wanted"
| "check_date_loop date_string game_year encoded_game_date list_index (sel # rest) wanted =
     check_date_loop date_string game_year encoded_game_date (Suc list_index) rest
       (check_date_step date_string game_year encoded_game_date list_index sel wanted)"

definition check_date :: "string \<Rightarrow> StringArray \<Rightarrow> bool" where
  "check_date date_string list =
     (case sscanf_u date_string of
        Some game_year \<Rightarrow>
          (case sscanf_month_day date_string (1, 1) of
             (game_month, game_day) \<Rightarrow>
               check_date_loop date_string game_year
                 (double_of (10000 * game_year + 100 * game_month + game_day)) 0 list False)
      | None \<Rightarrow> False)"

text \<open>
  The loop of \<^verbatim>\<open>check_time_period\<close>; it stops as soon as \<^verbatim>\<open>wanted\<close> is
  set.
\<close>

fun check_time_period_loop :: "string \<Rightarrow> u32 \<Rightarrow> StringArray \<Rightarrow> bool \<Rightarrow> bool" where
  "check_time_period_loop tag_str period [] wanted = wanted"
| "check_time_period_loop tag_str period (sel # rest) wanted =
     (if wanted then wanted
      else check_time_period_loop tag_str period rest
             (if operator sel \<noteq> NONE then
                (case sscanf_u (tag_string sel) of
                   Some list_period \<Rightarrow>
                     relative_numeric_match (operator sel) (double_of period) (double_of list_period)
                 | None \<Rightarrow> wanted)
              else if strncmp_eq tag_str (tag_string sel) (length (tag_string sel)) then True
              else wanted))"

definition check_time_period :: "string \<Rightarrow> u32 \<Rightarrow> StringArray \<Rightarrow> bool" where
  "check_time_period tag_str period list = check_time_period_loop tag_str period list False"

definition check_time_control :: "string \<Rightarrow> StringArray \<Rightarrow> bool" where
  "check_time_control tc_string list =
     (case tc_string of
        [] \<Rightarrow> False
      | c0 # r0 \<Rightarrow>
          if c0 = CHR ''?'' \<or> c0 = CHR ''-'' then False
          else
            (let control = takeWhile (\<lambda>c. c \<noteq> CHR '':'') tc_string
             in if CHR ''+'' \<in> set control then
                  (case sscanf_u control of
                     Some period \<Rightarrow> check_time_period control period list
                   | None \<Rightarrow> False)
                else if take 1 control = ''*'' then
                  (case sscanf_u (tl control) of
                     Some period \<Rightarrow> check_time_period control period list
                   | None \<Rightarrow> False)
                else
                  (case dropWhile (\<lambda>c. c \<noteq> CHR ''/'') control of
                     slash # after_slash \<Rightarrow>
                       (case sscanf_u after_slash of
                          Some period \<Rightarrow> check_time_period control period list
                        | None \<Rightarrow> False)
                   | [] \<Rightarrow>
                       (case control of
                          [] \<Rightarrow> False
                        | d # ds \<Rightarrow>
                            if isdigit d then
                              (if dropWhile isdigit control = [] then
                                 (case sscanf_u control of
                                    Some period \<Rightarrow> check_time_period control period list
                                  | None \<Rightarrow> False)
                               else False)
                            else False))))"

fun check_elo_loop :: "string \<Rightarrow> u32 \<Rightarrow> StringArray \<Rightarrow> bool \<Rightarrow> bool" where
  "check_elo_loop elo_string game_elo [] wanted = wanted"
| "check_elo_loop elo_string game_elo (sel # rest) wanted =
     (if wanted then wanted
      else check_elo_loop elo_string game_elo rest
             (if operator sel \<noteq> NONE then
                (case sscanf_u (tag_string sel) of
                   Some list_elo \<Rightarrow>
                     relative_numeric_match (operator sel) (double_of game_elo) (double_of list_elo)
                 | None \<Rightarrow> False)
              else if strncmp_eq elo_string (tag_string sel) (length (tag_string sel)) then True
              else wanted))"

definition check_elo :: "string \<Rightarrow> StringArray \<Rightarrow> bool" where
  "check_elo elo_string list =
     (case sscanf_u elo_string of
        Some game_elo \<Rightarrow> check_elo_loop elo_string game_elo list False
      | None \<Rightarrow> False)"

subsection \<open>The generic pattern matcher\<close>

text \<open>The classification of the search string that sets \<^verbatim>\<open>tag_string_is_numeric\<close>.\<close>

definition tag_string_is_numeric :: "string \<Rightarrow> bool" where
  "tag_string_is_numeric search_str =
     (let t = (case search_str of
                 [] \<Rightarrow> search_str
               | c # r \<Rightarrow> if c = CHR ''+'' \<or> c = CHR ''-'' then r else search_str)
      in dropWhile (\<lambda>c. isdigit c \<or> c = CHR ''.'') t = [])"

text \<open>
  The first loop of \<^verbatim>\<open>check_list\<close>. The triple holds \<^verbatim>\<open>wanted\<close>,
  \<^verbatim>\<open>possible_range_check\<close> and \<^verbatim>\<open>possible_regex_check\<close>.
\<close>

fun check_list_plain ::
  "GlobalState \<Rightarrow> string \<Rightarrow> bool \<Rightarrow> StringArray \<Rightarrow> bool \<times> bool \<times> bool
     \<Rightarrow> bool \<times> bool \<times> bool" where
  "check_list_plain gs search_str is_numeric [] st = st"
| "check_list_plain gs search_str is_numeric (selection # rest) (wanted, range_check, regex_check) =
     (if wanted then (wanted, range_check, regex_check)
      else
        (let list_string = tag_string selection;
             wanted' =
               (if tag_match_anywhere gs
                then (if strstr_found search_str list_string then True else wanted)
                else (if strncmp_eq search_str list_string (length list_string) then True
                      else wanted));
             deferred = (\<not> wanted' \<and> operator selection \<noteq> NONE);
             range_check' = (if deferred \<and> is_numeric then True else range_check);
             regex_check' = (if deferred \<and> operator selection = REGEX then True else regex_check)
         in check_list_plain gs search_str is_numeric rest (wanted', range_check', regex_check')))"

text \<open>
  The loop over the relational operators. The \<^verbatim>\<open>default\<close> branch of the
  \<^verbatim>\<open>switch\<close>, which only writes to the log, is the one of \<^verbatim>\<open>REGEX\<close>.
\<close>

fun check_list_range :: "platform \<Rightarrow> string \<Rightarrow> StringArray \<Rightarrow> bool \<Rightarrow> bool" where
  "check_list_range plat search_str [] wanted = wanted"
| "check_list_range plat search_str (selection # rest) wanted =
     (if \<not> wanted then wanted
      else check_list_range plat search_str rest
             (case operator selection of
                NONE \<Rightarrow> wanted
              | REGEX \<Rightarrow> wanted
              | opr \<Rightarrow>
                  (case sscanf_lf plat search_str of
                     None \<Rightarrow> wanted
                   | Some tag_value \<Rightarrow>
                       (case sscanf_lf plat (tag_string selection) of
                          None \<Rightarrow> wanted
                        | Some list_value \<Rightarrow>
                            relative_numeric_match opr tag_value list_value))))"

fun check_list_regex :: "platform \<Rightarrow> string \<Rightarrow> StringArray \<Rightarrow> bool \<Rightarrow> bool" where
  "check_list_regex plat search_str [] wanted = wanted"
| "check_list_regex plat search_str (selection # rest) wanted =
     (if wanted then wanted
      else check_list_regex plat search_str rest
             (if operator selection = REGEX then
                (if regcomp_ok plat (tag_string selection) then
                   (if regexec_match plat (tag_string selection) search_str then True else wanted)
                 else wanted)
              else wanted))"

definition check_list ::
  "platform \<Rightarrow> tag_codes \<Rightarrow> GlobalState \<Rightarrow> int \<Rightarrow> string \<Rightarrow> StringArray \<Rightarrow> bool" where
  "check_list plat tc gs tag tag_str list =
     (let search_str = (if use_soundex gs \<and> soundex_tag tc tag then soundex tag_str else tag_str)
      in case check_list_plain gs search_str (tag_string_is_numeric search_str) list
                (False, False, False) of
           (wanted, possible_range_check, possible_regex_check) \<Rightarrow>
             if \<not> wanted then
               (let wanted1 = (if possible_range_check
                               then check_list_range plat search_str list True else wanted)
                in if \<not> wanted1 \<and> possible_regex_check
                   then check_list_regex plat search_str list wanted1
                   else wanted1)
             else wanted)"

subsection \<open>The record selector\<close>

text \<open>
  \<^verbatim>\<open>Details\<close> is the array of tag values of a game, \<open>None\<close> for a
  \<^verbatim>\<open>NULL\<close> entry. The two clauses of the pseudo tags assign \<^verbatim>\<open>wanted\<close>
  one after the other.
\<close>

definition either_player_clause ::
  "platform \<Rightarrow> tag_codes \<Rightarrow> GlobalState \<Rightarrow> lists_state \<Rightarrow> (int \<Rightarrow> string option)
     \<Rightarrow> bool \<Rightarrow> bool" where
  "either_player_clause plat tc gs ls Details wanted =
     (if TagLists ls (PSEUDO_PLAYER_TAG tc) \<noteq> [] then
        (case Details (WHITE_TAG tc) of
           Some white \<Rightarrow>
             (let wanted' = check_list plat tc gs (WHITE_TAG tc) white
                              (TagLists ls (PSEUDO_PLAYER_TAG tc))
              in if \<not> wanted' then
                   (case Details (BLACK_TAG tc) of
                      Some black \<Rightarrow>
                        check_list plat tc gs (BLACK_TAG tc) black
                          (TagLists ls (PSEUDO_PLAYER_TAG tc))
                    | None \<Rightarrow> wanted')
                 else wanted')
         | None \<Rightarrow>
             (case Details (BLACK_TAG tc) of
                Some black \<Rightarrow>
                  check_list plat tc gs (BLACK_TAG tc) black (TagLists ls (PSEUDO_PLAYER_TAG tc))
              | None \<Rightarrow> False))
      else wanted)"

definition either_elo_clause ::
  "tag_codes \<Rightarrow> lists_state \<Rightarrow> (int \<Rightarrow> string option) \<Rightarrow> bool \<Rightarrow> bool" where
  "either_elo_clause tc ls Details wanted =
     (if TagLists ls (PSEUDO_ELO_TAG tc) \<noteq> [] then
        (case Details (WHITE_ELO_TAG tc) of
           Some white_elo \<Rightarrow>
             (let wanted' = check_elo white_elo (TagLists ls (PSEUDO_ELO_TAG tc))
              in if \<not> wanted' then
                   (case Details (BLACK_ELO_TAG tc) of
                      Some black_elo \<Rightarrow> check_elo black_elo (TagLists ls (PSEUDO_ELO_TAG tc))
                    | None \<Rightarrow> wanted')
                 else wanted')
         | None \<Rightarrow>
             (case Details (BLACK_ELO_TAG tc) of
                Some black_elo \<Rightarrow> check_elo black_elo (TagLists ls (PSEUDO_ELO_TAG tc))
              | None \<Rightarrow> False))
      else wanted)"

text \<open>The body of the loop over the remaining tags: the new value of \<^verbatim>\<open>wanted\<close>.\<close>

definition check_tag ::
  "platform \<Rightarrow> tag_codes \<Rightarrow> GlobalState \<Rightarrow> lists_state \<Rightarrow> (int \<Rightarrow> string option)
     \<Rightarrow> int \<Rightarrow> bool \<Rightarrow> bool" where
  "check_tag plat tc gs ls Details tag wanted =
     (if tag = PSEUDO_PLAYER_TAG tc then wanted
      else if tag = PSEUDO_ELO_TAG tc then wanted
      else if tag = ECO_TAG tc then wanted
      else if TagLists ls tag \<noteq> [] then
        (case Details tag of
           Some detail \<Rightarrow>
             if tag = DATE_TAG tc then check_date detail (TagLists ls (DATE_TAG tc))
             else if tag = WHITE_ELO_TAG tc \<or> tag = BLACK_ELO_TAG tc
               then check_elo detail (TagLists ls tag)
             else if tag = TIME_CONTROL_TAG tc
               then check_time_control detail (TagLists ls (TIME_CONTROL_TAG tc))
             else check_list plat tc gs tag detail (TagLists ls tag)
         | None \<Rightarrow> False)
      else wanted)"

function remaining_tags_loop ::
  "platform \<Rightarrow> tag_codes \<Rightarrow> GlobalState \<Rightarrow> lists_state \<Rightarrow> (int \<Rightarrow> string option)
     \<Rightarrow> int \<Rightarrow> bool \<Rightarrow> bool" where
  "remaining_tags_loop plat tc gs ls Details tag wanted =
     (if tag < tag_list_length ls \<and> wanted
      then remaining_tags_loop plat tc gs ls Details (tag + 1)
             (check_tag plat tc gs ls Details tag wanted)
      else wanted)"
  by pat_completeness auto
termination
  by (relation "measure (\<lambda>(plat, tc, gs, ls, Details, tag, wanted). nat (tag_list_length ls - tag))")
     auto

definition check_tag_details_not_ECO ::
  "platform \<Rightarrow> tag_codes \<Rightarrow> GlobalState \<Rightarrow> lists_state \<Rightarrow> (int \<Rightarrow> string option) \<Rightarrow> int
     \<Rightarrow> fatal + bool" where
  "check_tag_details_not_ECO plat tc gs ls Details num_details =
     (if check_tags gs then
        (if num_details < tag_list_length ls then Inl Exit_1
         else Inr (remaining_tags_loop plat tc gs ls Details 0
                     (either_elo_clause tc ls Details
                        (either_player_clause plat tc gs ls Details True))))
      else Inr True)"

definition check_ECO_tag ::
  "platform \<Rightarrow> tag_codes \<Rightarrow> GlobalState \<Rightarrow> lists_state \<Rightarrow> (int \<Rightarrow> string option) \<Rightarrow> bool" where
  "check_ECO_tag plat tc gs ls Details =
     (if check_tags gs then
        (if TagLists ls (ECO_TAG tc) \<noteq> [] then
           (case Details (ECO_TAG tc) of
              Some eco \<Rightarrow> check_list plat tc gs (ECO_TAG tc) eco (TagLists ls (ECO_TAG tc))
            | None \<Rightarrow> False)
         else True)
      else True)"

subsection \<open>The time-control shapes, as the specification words them\<close>

text \<open>
  A number of the specification's shapes is a non-empty run of decimal digits; its value
  is taken in \<^verbatim>\<open>unsigned\<close> arithmetic.
\<close>

definition all_digits :: "string \<Rightarrow> bool" where
  "all_digits s = (s \<noteq> [] \<and> list_all isdigit s)"

definition decimal_value :: "string \<Rightarrow> u32" where
  "decimal_value s = foldl (\<lambda>v c. v * 10 + of_nat ((of_char c :: nat) - 48)) 0 s"

text \<open>
  The four shapes of a single control and the period of each: a bare period,
  \<^verbatim>\<open>*period\<close>, \<^verbatim>\<open>period+increment\<close> and \<^verbatim>\<open>moves/period\<close>, where
  period, increment and moves are numbers. No string has two of the shapes. This
  definition follows the specification, not lists.c; it is compared with
  \<open>check_time_control\<close> below.
\<close>

definition spec_time_control_shape :: "string \<Rightarrow> u32 option" where
  "spec_time_control_shape control =
     (if all_digits control then Some (decimal_value control)
      else if take 1 control = ''*'' \<and> all_digits (tl control)
        then Some (decimal_value (tl control))
      else if all_digits (takeWhile (\<lambda>c. c \<noteq> CHR ''+'') control)
              \<and> all_digits (tl (dropWhile (\<lambda>c. c \<noteq> CHR ''+'') control))
        then Some (decimal_value (takeWhile (\<lambda>c. c \<noteq> CHR ''+'') control))
      else if all_digits (takeWhile (\<lambda>c. c \<noteq> CHR ''/'') control)
              \<and> all_digits (tl (dropWhile (\<lambda>c. c \<noteq> CHR ''/'') control))
        then Some (decimal_value (tl (dropWhile (\<lambda>c. c \<noteq> CHR ''/'') control)))
      else None)"

subsection \<open>Values for evaluation\<close>

text \<open>
  An assignment of pairwise distinct tag codes and a platform on which no
  \<^verbatim>\<open>%lf\<close> conversion succeeds and no regular expression matches. They serve to
  run the functions on concrete records; the theorems below hold for every assignment
  and every platform.
\<close>

definition example_tags :: tag_codes where
  "example_tags =
     \<lparr>ORIGINAL_NUMBER_OF_TAGS = 13, EVENT_TAG = 0, SITE_TAG = 1, DATE_TAG = 2, WHITE_TAG = 3,
      BLACK_TAG = 4, ANNOTATOR_TAG = 5, WHITE_ELO_TAG = 6, BLACK_ELO_TAG = 7, ECO_TAG = 8,
      TIME_CONTROL_TAG = 9, FEN_TAG = 10, PSEUDO_PLAYER_TAG = 11, PSEUDO_ELO_TAG = 12\<rparr>"

definition example_platform :: platform where
  "example_platform =
     \<lparr>sscanf_lf = (\<lambda>s. None), regcomp_ok = (\<lambda>p. True), regexec_match = (\<lambda>p s. False)\<rparr>"

section \<open>Properties\<close>

subsection \<open>The phonetic encoder\<close>

lemma isalpha_toupper: "isalpha (toupper c) = isalpha c"
  by (auto simp: isalpha_def isupper_def islower_def toupper_def)

lemma uppercased_toupper:
  "(if islower (toupper c) then toupper (toupper c) else toupper c) =
   (if islower c then toupper c else c)"
  by (auto simp: islower_def toupper_def)

lemma uppercased_index:
  "isalpha c \<Longrightarrow>
   (of_char (if islower c then toupper c else c) :: nat) - of_char (CHR ''A'') < 26"
  by (auto simp: isalpha_def isupper_def islower_def toupper_def)

lemma mapping_not_alpha: "k < 26 \<Longrightarrow> \<not> isalpha (mapping ! k)"
proof -
  assume k: "k < 26"
  have "length mapping = 26" by (simp add: mapping_def)
  with k have "mapping ! k \<in> set mapping" by (metis nth_mem)
  moreover have "list_all (\<lambda>c. \<not> isalpha c) mapping"
    by (simp add: mapping_def isalpha_def isupper_def islower_def)
  ultimately show ?thesis by (simp add: list_all_iff)
qed

text \<open>
  \<^verbatim>\<open>lastc\<close> is a blank or a digit of the table, never a letter: the test
  \<^verbatim>\<open>ch != lastc\<close> always succeeds on a letter, and the loop sees the letters through
  their upper-case form only.
\<close>

lemma soundex_loop_toupper:
  "\<not> isalpha lastc \<Longrightarrow>
   soundex_loop (map toupper s) sbuf lastc = soundex_loop s sbuf lastc"
proof (induction s arbitrary: sbuf lastc)
  case Nil
  then show ?case by simp
next
  case (Cons ch s)
  have ne: "isalpha ch \<Longrightarrow> ch \<noteq> lastc \<and> toupper ch \<noteq> lastc"
    using Cons.prems isalpha_toupper by metis
  show ?case
  proof (cases "isalpha ch")
    case True
    let ?k = "(of_char (if islower ch then toupper ch else ch) :: nat) - of_char (CHR ''A'')"
    have "\<not> isalpha (mapping ! ?k)"
      using True uppercased_index mapping_not_alpha by blast
    then have ih: "soundex_loop (map toupper s) b (mapping ! ?k) = soundex_loop s b (mapping ! ?k)"
      for b using Cons.IH by blast
    show ?thesis using True ne ih Cons.IH[OF Cons.prems]
      by (simp add: isalpha_toupper uppercased_toupper Let_def)
  next
    case False
    then show ?thesis using Cons.IH[OF Cons.prems] by (simp add: isalpha_toupper)
  qed
qed

lemma soundex_toupper: "soundex (map toupper s) = soundex s"
proof (cases s)
  case Nil
  then show ?thesis by (simp add: soundex_def)
next
  case (Cons c rest)
  have sp: "\<not> isalpha (CHR '' '')"
    by (simp add: isalpha_def isupper_def islower_def)
  have "soundex_loop (map toupper (c # rest)) [] (CHR '' '') =
        soundex_loop (c # rest) [] (CHR '' '')"
    using soundex_loop_toupper[OF sp] by blast
  then have a: "soundex_loop (toupper c # map toupper rest) [] (CHR '' '') =
                soundex_loop (c # rest) [] (CHR '' '')"
    by simp
  show ?thesis unfolding Cons soundex_def
    using a soundex_loop_toupper[OF sp, of rest] uppercased_toupper[of c]
    by (simp add: Let_def del: soundex_loop.simps)
qed

lemma soundex_loop_length:
  "length sbuf \<le> MAXSOUNDEX \<Longrightarrow> length (soundex_loop str sbuf lastc) \<le> MAXSOUNDEX"
  by (induction str sbuf lastc rule: soundex_loop.induct) (auto simp: Let_def)

lemma soundex_length: "length (soundex s) \<le> 50"
proof -
  have "length (soundex s) \<le> MAXSOUNDEX"
    by (auto simp: soundex_def Let_def MAXSOUNDEX_def split: list.splits
        intro!: soundex_loop_length[unfolded MAXSOUNDEX_def] simp del: soundex_loop.simps)
  then show ?thesis by (simp add: MAXSOUNDEX_def)
qed

lemma soundex_loop_keeps_buffer: "take (length sbuf) (soundex_loop str sbuf lastc) = sbuf"
proof (induction str sbuf lastc rule: soundex_loop.induct)
  case (1 sbuf lastc)
  then show ?case by simp
next
  case (2 ch str sbuf lastc)
  have ext: "take (length sbuf) xs = sbuf" if "take (length (sbuf @ [t])) xs = sbuf @ [t]"
    for xs t
  proof -
    have "take (length sbuf) xs = take (length sbuf) (take (length (sbuf @ [t])) xs)"
      by (simp add: min_def)
    also have "\<dots> = sbuf" using that by simp
    finally show ?thesis .
  qed
  show ?case using 2 ext
    by (auto simp: Let_def simp del: length_append) blast+
qed

lemma toupper_letters:
  "toupper (CHR ''j'') = CHR ''J''" "toupper (CHR ''y'') = CHR ''Y''"
  by (simp_all add: toupper_def islower_def char_of_eq_iff)
lemma soundex_initial_J_Y:
  assumes "c = CHR ''J'' \<or> c = CHR ''j'' \<or> c = CHR ''Y'' \<or> c = CHR ''y''"
  shows "soundex (c # s) = soundex_loop s ''7'' (CHR '' '')"
proof -
  have "(if islower c then toupper c else c) = CHR ''Y'' \<or> (if islower c then toupper c else c) = CHR ''J''"
    using assms by (auto simp: islower_def toupper_letters)
  then show ?thesis by (simp add: soundex_def Let_def del: soundex_loop.simps)
qed
lemma soundex_names:
  "soundex ''Nimzovich'' = ''5212''" "soundex ''Nimzowitsch'' = ''5212''"
  "soundex ''Janosevic'' = ''75212''" "soundex ''Yanosevic'' = ''75212''"
  by (simp_all add: soundex_def isalpha_def islower_def isupper_def toupper_def mapping_def
      MAXSOUNDEX_def Let_def)
text \<open>
  C8. The phonetic encoder is a function of its input that does not depend on the case
  of the letters: two strings with the same upper-case form have the same code. Its
  result has at most 50 symbols. When the first character is J or Y, in either case, the
  result starts with the digit 7 and is the encoding of the rest of the string started
  after that digit. Nimzovich and Nimzowitsch have the same code, and the codes of
  Janosevic and Yanosevic both start with 7.
\<close>

theorem soundex_case_insensitive_bounded:
  "(map toupper s = map toupper t \<longrightarrow> soundex s = soundex t)
   \<and> length (soundex s) \<le> 50
   \<and> (c = CHR ''J'' \<or> c = CHR ''j'' \<or> c = CHR ''Y'' \<or> c = CHR ''y'' \<longrightarrow>
        take 1 (soundex (c # s)) = ''7''
        \<and> soundex (c # s) = soundex_loop s ''7'' (CHR '' ''))
   \<and> soundex ''Nimzovich'' = soundex ''Nimzowitsch''
   \<and> take 1 (soundex ''Janosevic'') = ''7''
   \<and> take 1 (soundex ''Yanosevic'') = ''7''"
proof -
  have ci: "map toupper s = map toupper t \<longrightarrow> soundex s = soundex t"
    by (metis soundex_toupper)
  have first: "take 1 (soundex (c # s)) = ''7'' \<and> soundex (c # s) = soundex_loop s ''7'' (CHR '' '')"
    if "c = CHR ''J'' \<or> c = CHR ''j'' \<or> c = CHR ''Y'' \<or> c = CHR ''y''"
    using soundex_initial_J_Y[OF that, of s] soundex_loop_keeps_buffer[of "''7''" s "CHR '' ''"]
    by simp
  have names: "soundex ''Nimzovich'' = soundex ''Nimzowitsch''
      \<and> take 1 (soundex ''Janosevic'') = ''7'' \<and> take 1 (soundex ''Yanosevic'') = ''7''"
    by (simp add: soundex_names)
  from ci soundex_length[of s] first names show ?thesis by blast
qed

theorem soundex_case_insensitive_bounded_witness:
  "soundex ''nimzovich'' = soundex ''NimZoVich''
   \<and> length (soundex ''nimzovich'') \<le> 50
   \<and> take 1 (soundex ''yusupov'') = ''7''
   \<and> soundex ''yusupov'' = soundex_loop ''usupov'' ''7'' (CHR '' '')"
proof -
  have same: "map toupper ''nimzovich'' = map toupper ''NimZoVich''"
    by (simp add: toupper_def islower_def char_of_eq_iff)
  have a: "soundex ''nimzovich'' = soundex ''NimZoVich'' \<and> length (soundex ''nimzovich'') \<le> 50"
    using soundex_case_insensitive_bounded[of "''nimzovich''" "''NimZoVich''" "CHR ''y''"] same
    by blast
  have b: "take 1 (soundex ''yusupov'') = ''7''
      \<and> soundex ''yusupov'' = soundex_loop ''usupov'' ''7'' (CHR '' '')"
    using soundex_case_insensitive_bounded[of "''usupov''" "''usupov''" "CHR ''y''"]
    by blast
  from a b show ?thesis by blast
qed

subsection \<open>The numeric-literal classifier\<close>

lemma sign_not_digit_or_dot:
  "\<not> (isdigit (CHR ''+'') \<or> CHR ''+'' = CHR ''.'')" "\<not> (isdigit (CHR ''-'') \<or> CHR ''-'' = CHR ''.'')"
  by (simp_all add: isdigit_def)

lemma tag_string_is_numeric_iff:
  "tag_string_is_numeric s \<longleftrightarrow>
     (\<exists>sign body. s = sign @ body \<and> (sign = [] \<or> sign = ''+'' \<or> sign = ''-'')
        \<and> list_all (\<lambda>c. isdigit c \<or> c = CHR ''.'') body)"
  (is "?lhs \<longleftrightarrow> ?rhs")
proof
  assume l: ?lhs
  show ?rhs
  proof (cases s)
    case Nil
    then show ?thesis by simp
  next
    case (Cons c r)
    show ?thesis
    proof (cases "c = CHR ''+'' \<or> c = CHR ''-''")
      case True
      with l Cons have "list_all (\<lambda>c. isdigit c \<or> c = CHR ''.'') r"
        by (auto simp: tag_string_is_numeric_def dropWhile_eq_Nil_conv list_all_iff)
      moreover have "s = [c] @ r" using Cons by simp
      ultimately show ?thesis using True by blast
    next
      case False
      with l Cons have "list_all (\<lambda>c. isdigit c \<or> c = CHR ''.'') s"
        by (auto simp: tag_string_is_numeric_def dropWhile_eq_Nil_conv list_all_iff)
      moreover have "s = [] @ s" by simp
      ultimately show ?thesis by blast
    qed
  qed
next
  assume ?rhs
  then obtain sign body where s: "s = sign @ body"
    and sg: "sign = [] \<or> sign = ''+'' \<or> sign = ''-''"
    and body: "list_all (\<lambda>c. isdigit c \<or> c = CHR ''.'') body"
    by blast
  from sg show ?lhs
  proof (elim disjE)
    assume "sign = []"
    with s body have all: "list_all (\<lambda>c. isdigit c \<or> c = CHR ''.'') s" by simp
    show ?thesis
    proof (cases s)
      case Nil
      then show ?thesis by (simp add: tag_string_is_numeric_def)
    next
      case (Cons c r)
      with all have "isdigit c \<or> c = CHR ''.''" by simp
      then have "\<not> (c = CHR ''+'' \<or> c = CHR ''-'')" using sign_not_digit_or_dot by blast
      with all Cons show ?thesis
        by (simp add: tag_string_is_numeric_def dropWhile_eq_Nil_conv list_all_iff)
    qed
  next
    assume "sign = ''+''"
    with s body show ?thesis
      by (simp add: tag_string_is_numeric_def dropWhile_eq_Nil_conv list_all_iff)
  next
    assume "sign = ''-''"
    with s body show ?thesis
      by (simp add: tag_string_is_numeric_def dropWhile_eq_Nil_conv list_all_iff)
  qed
qed

lemma soundex_Nil: "soundex [] = []"
  by (simp add: soundex_def)

lemma check_list_plain_empty_candidate:
  "check_list_plain gs [] True [\<lparr>tag_string = ''2700'', operator = GREATER_THAN\<rparr>]
     (False, False, False) = (False, True, False)"
  by (simp add: strncmp_eq_def Let_def)

text \<open>
  C10. The classifier accepts exactly the strings made of an optional sign followed by
  any number, possibly zero, of digits and dots. So 1.2.3 is numeric-shaped, and so are
  the empty string and a bare sign; with an empty candidate and a relational criterion
  the first loop ends without a match and with the range check requested, and the
  verdict of \<open>check_list\<close> is the one of the relational pass.
\<close>

theorem numeric_classifier_lenient:
  "(tag_string_is_numeric s \<longleftrightarrow>
      (\<exists>sign body. s = sign @ body \<and> (sign = [] \<or> sign = ''+'' \<or> sign = ''-'')
         \<and> list_all (\<lambda>c. isdigit c \<or> c = CHR ''.'') body))
   \<and> tag_string_is_numeric ''1.2.3''
   \<and> tag_string_is_numeric [] \<and> tag_string_is_numeric ''+'' \<and> tag_string_is_numeric ''-''
   \<and> check_list_plain gs [] (tag_string_is_numeric [])
        [\<lparr>tag_string = ''2700'', operator = GREATER_THAN\<rparr>] (False, False, False)
      = (False, True, False)
   \<and> check_list plat tc gs tag [] [\<lparr>tag_string = ''2700'', operator = GREATER_THAN\<rparr>]
      = check_list_range plat [] [\<lparr>tag_string = ''2700'', operator = GREATER_THAN\<rparr>] True"
proof -
  have shapes: "tag_string_is_numeric ''1.2.3'' \<and> tag_string_is_numeric []
      \<and> tag_string_is_numeric ''+'' \<and> tag_string_is_numeric ''-''"
    by (simp add: tag_string_is_numeric_def isdigit_def)
  then have e: "tag_string_is_numeric [] = True" by simp
  have enters: "check_list plat tc gs tag [] [\<lparr>tag_string = ''2700'', operator = GREATER_THAN\<rparr>]
      = check_list_range plat [] [\<lparr>tag_string = ''2700'', operator = GREATER_THAN\<rparr>] True"
    unfolding check_list_def Let_def soundex_Nil if_cancel e check_list_plain_empty_candidate
    by simp
  show ?thesis
    using tag_string_is_numeric_iff[of s] shapes enters check_list_plain_empty_candidate[of gs]
    unfolding e by blast
qed

theorem numeric_classifier_lenient_witness:
  "tag_string_is_numeric ''-12.5.''
   \<and> check_list example_platform example_tags
        \<lparr>use_soundex = False, tag_match_anywhere = False, check_tags = True\<rparr> 0 []
        [\<lparr>tag_string = ''2700'', operator = GREATER_THAN\<rparr>]"
proof -
  have "\<exists>sign body. ''-12.5.'' = sign @ body \<and> (sign = [] \<or> sign = ''+'' \<or> sign = ''-'')
         \<and> list_all (\<lambda>c. isdigit c \<or> c = CHR ''.'') body"
    by (rule exI[of _ "''-''"], rule exI[of _ "''12.5.''"]) (simp add: isdigit_def)
  then have "tag_string_is_numeric ''-12.5.''"
    using numeric_classifier_lenient[of "''-12.5.''"] by blast
  moreover have "check_list example_platform example_tags
        \<lparr>use_soundex = False, tag_match_anywhere = False, check_tags = True\<rparr> 0 []
        [\<lparr>tag_string = ''2700'', operator = GREATER_THAN\<rparr>]
      = check_list_range example_platform [] [\<lparr>tag_string = ''2700'', operator = GREATER_THAN\<rparr>] True"
    using numeric_classifier_lenient[of "[]"] by blast
  ultimately show ?thesis by (simp add: example_platform_def)
qed

subsection \<open>Elo and time-period matching\<close>

lemma strncmp_eq_prefix: "strncmp_eq s p (length p) \<longleftrightarrow> (\<exists>rest. s = p @ rest)"
proof
  assume "strncmp_eq s p (length p)"
  then have "take (length p) s = p" by (simp add: strncmp_eq_def)
  then have "s = p @ drop (length p) s" by (metis append_take_drop_id)
  then show "\<exists>rest. s = p @ rest" ..
next
  assume "\<exists>rest. s = p @ rest"
  then show "strncmp_eq s p (length p)" by (auto simp: strncmp_eq_def)
qed

lemma check_elo_loop_any:
  "check_elo_loop elo_string game_elo list wanted =
     (wanted \<or> (\<exists>sel\<in>set list.
        if operator sel = NONE then (\<exists>rest. elo_string = tag_string sel @ rest)
        else (\<exists>list_elo. sscanf_u (tag_string sel) = Some list_elo
                \<and> relative_numeric_match (operator sel) (double_of game_elo) (double_of list_elo))))"
proof (induction list arbitrary: wanted)
  case Nil
  then show ?case by simp
next
  case (Cons sel rest)
  show ?case
  proof (cases wanted)
    case True
    then show ?thesis by simp
  next
    case False
    then show ?thesis
      by (cases "sscanf_u (tag_string sel)") (auto simp: Cons.IH strncmp_eq_prefix)
  qed
qed

lemma check_time_period_loop_any:
  "check_time_period_loop tag_str period list wanted =
     (wanted \<or> (\<exists>sel\<in>set list.
        if operator sel = NONE then (\<exists>rest. tag_str = tag_string sel @ rest)
        else (\<exists>list_period. sscanf_u (tag_string sel) = Some list_period
                \<and> relative_numeric_match (operator sel) (double_of period) (double_of list_period))))"
proof (induction list arbitrary: wanted)
  case Nil
  then show ?case by simp
next
  case (Cons sel rest)
  show ?case
  proof (cases wanted)
    case True
    then show ?thesis by simp
  next
    case False
    then show ?thesis
      by (cases "sscanf_u (tag_string sel)") (auto simp: Cons.IH strncmp_eq_prefix)
  qed
qed

lemma check_time_period_any:
  "check_time_period tag_str period list =
     (\<exists>sel\<in>set list.
        if operator sel = NONE then (\<exists>rest. tag_str = tag_string sel @ rest)
        else (\<exists>list_period. sscanf_u (tag_string sel) = Some list_period
                \<and> relative_numeric_match (operator sel) (double_of period) (double_of list_period)))"
  by (simp add: check_time_period_def check_time_period_loop_any)

lemma check_elo_any:
  "check_elo elo_string list =
     (\<exists>game_elo. sscanf_u elo_string = Some game_elo \<and>
        (\<exists>sel\<in>set list.
           if operator sel = NONE then (\<exists>rest. elo_string = tag_string sel @ rest)
           else (\<exists>list_elo. sscanf_u (tag_string sel) = Some list_elo
                   \<and> relative_numeric_match (operator sel) (double_of game_elo) (double_of list_elo))))"
  by (cases "sscanf_u elo_string") (simp_all add: check_elo_def check_elo_loop_any)

lemma scan_elo_examples:
  "sscanf_u ''2750'' = Some 2750" "sscanf_u ''2700'' = Some 2700" "sscanf_u ''2800'' = Some 2800"
  by (simp_all add: sscanf_u_def scan_u_def isdigit_def isspace_def)

lemma check_elo_example:
  "check_elo ''2750'' [\<lparr>tag_string = ''2700'', operator = GREATER_THAN\<rparr>,
                      \<lparr>tag_string = ''2800'', operator = GREATER_THAN\<rparr>]"
  "\<not> check_elo ''2750'' [\<lparr>tag_string = ''2800'', operator = GREATER_THAN\<rparr>]"
  by (simp_all add: check_elo_def scan_elo_examples double_of_def)

text \<open>
  C6. \<open>check_elo\<close> and \<open>check_time_period\<close> accept exactly when some criterion of
  the list succeeds: one without operator when its pattern is a prefix of the value,
  one with an operator when its pattern has a number and the comparison of the
  candidate's number with it holds. A list that has succeeded still succeeds when
  criteria are added behind it. With the criteria greater than 2700 and greater than
  2800 the candidate 2750 is accepted, although it fails the second criterion alone.
\<close>

theorem elo_and_period_first_success:
  "check_elo elo_string list =
     (\<exists>game_elo. sscanf_u elo_string = Some game_elo \<and>
        (\<exists>sel\<in>set list.
           if operator sel = NONE then (\<exists>rest. elo_string = tag_string sel @ rest)
           else (\<exists>list_elo. sscanf_u (tag_string sel) = Some list_elo
                   \<and> relative_numeric_match (operator sel) (double_of game_elo) (double_of list_elo))))
   \<and> check_time_period tag_str period list =
     (\<exists>sel\<in>set list.
        if operator sel = NONE then (\<exists>rest. tag_str = tag_string sel @ rest)
        else (\<exists>list_period. sscanf_u (tag_string sel) = Some list_period
                \<and> relative_numeric_match (operator sel) (double_of period) (double_of list_period)))
   \<and> (check_elo elo_string list \<longrightarrow> check_elo elo_string (list @ later))
   \<and> (check_time_period tag_str period list \<longrightarrow> check_time_period tag_str period (list @ later))
   \<and> check_elo ''2750'' [\<lparr>tag_string = ''2700'', operator = GREATER_THAN\<rparr>,
                         \<lparr>tag_string = ''2800'', operator = GREATER_THAN\<rparr>]
   \<and> \<not> check_elo ''2750'' [\<lparr>tag_string = ''2800'', operator = GREATER_THAN\<rparr>]"
proof -
  have elo_later: "check_elo elo_string list \<longrightarrow> check_elo elo_string (list @ later)"
    unfolding check_elo_any by auto
  have period_later:
    "check_time_period tag_str period list \<longrightarrow> check_time_period tag_str period (list @ later)"
    unfolding check_time_period_any by auto
  show ?thesis
    using check_elo_any[of elo_string list] check_time_period_any[of tag_str period list]
      elo_later period_later check_elo_example
    by blast
qed

theorem elo_and_period_first_success_witness:
  "check_elo ''2750'' ([\<lparr>tag_string = ''27'', operator = NONE\<rparr>]
                        @ [\<lparr>tag_string = ''2800'', operator = GREATER_THAN\<rparr>])
   \<and> check_time_period ''40/7200'' 7200
        ([\<lparr>tag_string = ''7000'', operator = GREATER_THAN_OR_EQUAL_TO\<rparr>]
          @ [\<lparr>tag_string = ''90'', operator = NONE\<rparr>])"
proof -
  have a: "check_elo ''2750'' [\<lparr>tag_string = ''27'', operator = NONE\<rparr>]"
    by (simp add: check_elo_def scan_elo_examples strncmp_eq_def)
  have "sscanf_u ''7000'' = Some 7000"
    by (simp add: sscanf_u_def scan_u_def isdigit_def isspace_def)
  then have b: "check_time_period ''40/7200'' 7200
      [\<lparr>tag_string = ''7000'', operator = GREATER_THAN_OR_EQUAL_TO\<rparr>]"
    by (simp add: check_time_period_def double_of_def)
  show ?thesis
    using a b
      elo_and_period_first_success[of "''2750''" "[\<lparr>tag_string = ''27'', operator = NONE\<rparr>]"
        "''40/7200''" 7200 "[\<lparr>tag_string = ''2800'', operator = GREATER_THAN\<rparr>]"]
      elo_and_period_first_success[of "''2750''"
        "[\<lparr>tag_string = ''7000'', operator = GREATER_THAN_OR_EQUAL_TO\<rparr>]"
        "''40/7200''" 7200 "[\<lparr>tag_string = ''90'', operator = NONE\<rparr>]"]
    by blast
qed

subsection \<open>Time controls\<close>

lemma digit_is_no_mark:
  "isdigit c \<Longrightarrow>
     \<not> isspace c \<and> c \<noteq> CHR ''-'' \<and> c \<noteq> CHR ''+'' \<and> c \<noteq> CHR ''*'' \<and> c \<noteq> CHR ''/''
     \<and> c \<noteq> CHR '':'' \<and> c \<noteq> CHR ''?''"
  by (auto simp: isdigit_def isspace_def)

lemma scan_digits_run:
  "list_all isdigit ds \<Longrightarrow> take 1 rest = [] \<or> \<not> isdigit (hd rest) \<Longrightarrow>
   scan_digits (ds @ rest) acc
     = (foldl (\<lambda>v c. v * 10 + of_nat ((of_char c :: nat) - 48)) acc ds, rest)"
proof (induction ds arbitrary: acc)
  case Nil
  then show ?case by (cases rest) auto
next
  case (Cons d ds)
  then show ?case by simp
qed

lemma sscanf_u_digits:
  assumes "all_digits ds" "take 1 rest = [] \<or> \<not> isdigit (hd rest)"
  shows "sscanf_u (ds @ rest) = Some (decimal_value ds)"
proof -
  from assms(1) obtain d ds' where ds: "ds = d # ds'" and d: "isdigit d"
    and all: "list_all isdigit ds"
    by (cases ds) (auto simp: all_digits_def)
  have "scan_digits (ds @ rest) 0 = (decimal_value ds, rest)"
    using scan_digits_run[OF all assms(2)] by (simp add: decimal_value_def)
  then show ?thesis
    using d digit_is_no_mark[OF d] unfolding sscanf_u_def scan_u_def ds
    by (simp del: scan_digits.simps)
qed

lemma sscanf_u_all_digits: "all_digits ds \<Longrightarrow> sscanf_u ds = Some (decimal_value ds)"
  using sscanf_u_digits[of ds "[]"] by simp

lemma all_digits_no_mark:
  "all_digits ds \<Longrightarrow>
     CHR ''+'' \<notin> set ds \<and> CHR ''/'' \<notin> set ds \<and> take 1 ds \<noteq> ''*'' \<and> take 1 ds \<noteq> ''?''
     \<and> take 1 ds \<noteq> ''-''"
  using digit_is_no_mark by (cases ds) (auto simp: all_digits_def list_all_iff)

lemma split_at_mark:
  assumes "tl (dropWhile (\<lambda>c. c \<noteq> m) control) \<noteq> []"
  shows "control = takeWhile (\<lambda>c. c \<noteq> m) control @ m # tl (dropWhile (\<lambda>c. c \<noteq> m) control)"
proof -
  from assms have ne: "dropWhile (\<lambda>c. c \<noteq> m) control \<noteq> []"
    by (metis list.sel(2))
  then have "hd (dropWhile (\<lambda>c. c \<noteq> m) control) = m"
    using hd_dropWhile[of "\<lambda>c. c \<noteq> m" control] by simp
  with ne have "dropWhile (\<lambda>c. c \<noteq> m) control = m # tl (dropWhile (\<lambda>c. c \<noteq> m) control)"
    by (cases "dropWhile (\<lambda>c. c \<noteq> m) control") auto
  then show ?thesis
    using takeWhile_dropWhile_id[of "\<lambda>c. c \<noteq> m" control] by simp
qed

text \<open>
  A control of one of the four shapes passes the test of its shape in
  \<open>check_time_control\<close>, and the number read there is the period of the shape.
\<close>

lemma shape_is_read:
  assumes "spec_time_control_shape control = Some period"
  shows "(if CHR ''+'' \<in> set control then sscanf_u control
          else if take 1 control = ''*'' then sscanf_u (tl control)
          else if CHR ''/'' \<in> set control
            then sscanf_u (tl (dropWhile (\<lambda>c. c \<noteq> CHR ''/'') control))
          else if control \<noteq> [] \<and> list_all isdigit control then sscanf_u control
          else None) = Some period
         \<and> control \<noteq> [] \<and> take 1 control \<noteq> ''?'' \<and> take 1 control \<noteq> ''-''"
proof -
  let ?bp = "takeWhile (\<lambda>c. c \<noteq> CHR ''+'') control"
  let ?ap = "tl (dropWhile (\<lambda>c. c \<noteq> CHR ''+'') control)"
  let ?bs = "takeWhile (\<lambda>c. c \<noteq> CHR ''/'') control"
  let ?as = "tl (dropWhile (\<lambda>c. c \<noteq> CHR ''/'') control)"
  consider
    (bare) "all_digits control" "period = decimal_value control"
    | (star) "take 1 control = ''*''" "all_digits (tl control)"
        "period = decimal_value (tl control)"
    | (plus) "all_digits ?bp" "all_digits ?ap" "period = decimal_value ?bp"
    | (slash) "\<not> (all_digits ?bp \<and> all_digits ?ap)" "take 1 control \<noteq> ''*'' \<or> \<not> all_digits (tl control)"
        "all_digits ?bs" "all_digits ?as" "period = decimal_value ?as"
    using assms unfolding spec_time_control_shape_def by (auto split: if_splits)
  then show ?thesis
  proof cases
    case bare
    then show ?thesis
      using all_digits_no_mark[of control] sscanf_u_all_digits[of control]
      by (auto simp: all_digits_def)
  next
    case star
    then obtain ds where c: "control = CHR ''*'' # ds" by (cases control) auto
    with star have ds: "all_digits ds" by simp
    show ?thesis
      using c ds star(3) all_digits_no_mark[OF ds] sscanf_u_all_digits[OF ds] by simp
  next
    case plus
    from plus(2) have "?ap \<noteq> []" by (auto simp: all_digits_def)
    from split_at_mark[OF this] have c: "control = ?bp @ CHR ''+'' # ?ap" .
    then have mem: "CHR ''+'' \<in> set control" by (metis in_set_conv_decomp)
    have "sscanf_u (?bp @ CHR ''+'' # ?ap) = Some (decimal_value ?bp)"
      using sscanf_u_digits[OF plus(1), of "CHR ''+'' # ?ap"] digit_is_no_mark[of "CHR ''+''"]
      by auto
    with c have r: "sscanf_u control = Some period" using plus(3) by simp
    from plus(1) obtain d ds where "?bp = d # ds" "isdigit d"
      by (cases ?bp) (auto simp: all_digits_def)
    with c have "control = d # (ds @ CHR ''+'' # ?ap)" by simp
    then have "control \<noteq> [] \<and> take 1 control = [d]" by (metis list.distinct(1) take_Suc_Cons take_0 One_nat_def)
    with \<open>isdigit d\<close> digit_is_no_mark[of d] have "control \<noteq> [] \<and> take 1 control \<noteq> ''?'' \<and> take 1 control \<noteq> ''-''"
      by auto
    with mem r show ?thesis by simp
  next
    case slash
    from slash(4) have "?as \<noteq> []" by (auto simp: all_digits_def)
    from split_at_mark[OF this] have c: "control = ?bs @ CHR ''/'' # ?as" .
    then have mem: "CHR ''/'' \<in> set control" by (metis in_set_conv_decomp)
    have "set control = set ?bs \<union> {CHR ''/''} \<union> set ?as"
      by (subst c) auto
    then have noplus: "CHR ''+'' \<notin> set control"
      using all_digits_no_mark[OF slash(3)] all_digits_no_mark[OF slash(4)] by auto
    from slash(3) obtain d ds where bs: "?bs = d # ds" and d: "isdigit d"
      by (cases ?bs) (auto simp: all_digits_def)
    with c have "control = d # (ds @ CHR ''/'' # ?as)" by simp
    then have t: "control \<noteq> [] \<and> take 1 control = [d]"
      by (metis list.distinct(1) take_Suc_Cons take_0 One_nat_def)
    with d digit_is_no_mark[of d] have hd: "control \<noteq> [] \<and> take 1 control \<noteq> ''?''
        \<and> take 1 control \<noteq> ''-'' \<and> take 1 control \<noteq> ''*''"
      by auto
    show ?thesis
      using noplus hd mem sscanf_u_all_digits[OF slash(4)] slash(5) by simp
  qed
qed

lemma dropWhile_slash_Nil:
  "dropWhile (\<lambda>c. c \<noteq> CHR ''/'') control = [] \<longleftrightarrow> CHR ''/'' \<notin> set control"
  by (auto simp: dropWhile_eq_Nil_conv)

lemma dropWhile_slash_Cons:
  "dropWhile (\<lambda>c. c \<noteq> CHR ''/'') control = slash # after_slash \<Longrightarrow>
   CHR ''/'' \<in> set control \<and> tl (dropWhile (\<lambda>c. c \<noteq> CHR ''/'') control) = after_slash"
  using dropWhile_slash_Nil[of control] by auto

text \<open>The tests of \<open>check_time_control\<close>, in the order in which it tries them.\<close>

lemma check_time_control_tests:
  "check_time_control tc_string list =
     (let control = takeWhile (\<lambda>c. c \<noteq> CHR '':'') tc_string
      in tc_string \<noteq> [] \<and> take 1 tc_string \<noteq> ''?'' \<and> take 1 tc_string \<noteq> ''-'' \<and>
         (\<exists>period.
            (if CHR ''+'' \<in> set control then sscanf_u control
             else if take 1 control = ''*'' then sscanf_u (tl control)
             else if CHR ''/'' \<in> set control
               then sscanf_u (tl (dropWhile (\<lambda>c. c \<noteq> CHR ''/'') control))
             else if control \<noteq> [] \<and> list_all isdigit control then sscanf_u control
             else None) = Some period
            \<and> check_time_period control period list))"
proof (cases tc_string)
  case Nil
  then show ?thesis by (simp add: check_time_control_def)
next
  case (Cons c0 r0)
  define control where "control = takeWhile (\<lambda>c. c \<noteq> CHR '':'') tc_string"
  let ?read = "if CHR ''+'' \<in> set control then sscanf_u control
             else if take 1 control = ''*'' then sscanf_u (tl control)
             else if CHR ''/'' \<in> set control
               then sscanf_u (tl (dropWhile (\<lambda>c. c \<noteq> CHR ''/'') control))
             else if control \<noteq> [] \<and> list_all isdigit control then sscanf_u control
             else None"
  show ?thesis
  proof (cases "c0 = CHR ''?'' \<or> c0 = CHR ''-''")
    case True
    then show ?thesis using Cons by (auto simp: check_time_control_def)
  next
    case False
    have lhs: "check_time_control tc_string list =
      (if CHR ''+'' \<in> set control then
         (case sscanf_u control of Some period \<Rightarrow> check_time_period control period list
          | None \<Rightarrow> False)
       else if take 1 control = ''*'' then
         (case sscanf_u (tl control) of Some period \<Rightarrow> check_time_period control period list
          | None \<Rightarrow> False)
       else
         (case dropWhile (\<lambda>c. c \<noteq> CHR ''/'') control of
            slash # after_slash \<Rightarrow>
              (case sscanf_u after_slash of Some period \<Rightarrow> check_time_period control period list
               | None \<Rightarrow> False)
          | [] \<Rightarrow>
              (case control of
                 [] \<Rightarrow> False
               | d # ds \<Rightarrow>
                   if isdigit d then
                     (if dropWhile isdigit control = [] then
                        (case sscanf_u control of
                           Some period \<Rightarrow> check_time_period control period list
                         | None \<Rightarrow> False)
                      else False)
                   else False)))"
      using False Cons unfolding check_time_control_def control_def Let_def by simp
    have rhs: "(tc_string \<noteq> [] \<and> take 1 tc_string \<noteq> ''?'' \<and> take 1 tc_string \<noteq> ''-'' \<and>
      (\<exists>period. ?read = Some period \<and> check_time_period control period list))
      = (case ?read of
           Some period \<Rightarrow> check_time_period control period list | None \<Rightarrow> False)"
      using False Cons by (auto split: option.splits)
    have digits: "(control \<noteq> [] \<and> list_all isdigit control) =
        (case control of [] \<Rightarrow> False | d # ds \<Rightarrow> isdigit d \<and> dropWhile isdigit control = [])"
      by (cases control) (auto simp: dropWhile_eq_Nil_conv list_all_iff)
    have core: "(case ?read of
           Some period \<Rightarrow> check_time_period control period list | None \<Rightarrow> False)
        = check_time_control tc_string list"
    proof (cases "CHR ''+'' \<in> set control")
      case True
      then show ?thesis unfolding lhs by simp
    next
      case plus: False
      show ?thesis
      proof (cases "take 1 control = ''*''")
        case True
        then show ?thesis using plus unfolding lhs by simp
      next
        case star: False
        show ?thesis
        proof (cases "dropWhile (\<lambda>c. c \<noteq> CHR ''/'') control")
          case Nil
          then have "CHR ''/'' \<notin> set control" using dropWhile_slash_Nil by blast
          then show ?thesis using plus star Nil digits
            unfolding lhs
            by (cases control) (auto split: option.splits)
        next
          case (Cons slash after_slash)
          then show ?thesis using plus star dropWhile_slash_Cons[OF Cons]
            unfolding lhs by simp
        qed
      qed
    qed
    show ?thesis using rhs core unfolding control_def Let_def by simp
  qed
qed

lemma check_time_control_first_control:
  assumes "CHR '':'' \<notin> set first"
  shows "check_time_control (first @ CHR '':'' # others) list = check_time_control first list"
proof -
  have tw: "takeWhile (\<lambda>c. c \<noteq> CHR '':'') (first @ CHR '':'' # others) = first"
    using assms by (induction first) auto
  have tw': "takeWhile (\<lambda>c. c \<noteq> CHR '':'') first = first"
    using assms by (induction first) auto
  show ?thesis
  proof (cases first)
    case Nil
    then show ?thesis
      by (simp add: check_time_control_tests)
  next
    case (Cons c r)
    then show ?thesis
      unfolding check_time_control_tests[of "first @ CHR '':'' # others"]
        check_time_control_tests[of first] tw tw' Let_def
      by simp
  qed
qed

lemma check_time_control_of_shape:
  assumes "spec_time_control_shape (takeWhile (\<lambda>c. c \<noteq> CHR '':'') tc_string) = Some period"
  shows "check_time_control tc_string list
         = check_time_period (takeWhile (\<lambda>c. c \<noteq> CHR '':'') tc_string) period list"
proof -
  define control where "control = takeWhile (\<lambda>c. c \<noteq> CHR '':'') tc_string"
  note r = shape_is_read[OF assms, folded control_def]
  from r obtain c cs where c: "control = c # cs" by (cases control) auto
  then have "tc_string \<noteq> [] \<and> take 1 tc_string = take 1 control"
    unfolding control_def by (cases tc_string) (auto split: if_splits)
  with r have "tc_string \<noteq> [] \<and> take 1 tc_string \<noteq> ''?'' \<and> take 1 tc_string \<noteq> ''-''"
    by simp
  then show ?thesis
    using r unfolding check_time_control_tests Let_def control_def[symmetric] by simp
qed

lemma time_control_examples:
  "spec_time_control_shape ''40/7200'' = Some 7200"
  "spec_time_control_shape ''300+5'' = Some 300"
  "spec_time_control_shape ''x/5y'' = None"
  "spec_time_control_shape ''+5'' = None"
  "spec_time_control_shape ''40/7200+30'' = None"
  by (simp_all add: spec_time_control_shape_def all_digits_def decimal_value_def isdigit_def)

lemma lenient_reads:
  "sscanf_u ''5y'' = Some 5" "sscanf_u ''+5'' = Some 5" "sscanf_u ''40/7200+30'' = Some 40"
  "sscanf_u ''5'' = Some 5" "sscanf_u ''40'' = Some 40"
  by (simp_all add: sscanf_u_def scan_u_def isdigit_def isspace_def)

text \<open>
  C7 as stated fails: none of the candidates x/5y, +5 and 40/7200+30 has one of the
  four shapes, yet \<open>check_time_control\<close> reads a period from each (5, 5 and 40) and
  accepts it under a criterion that asks for that period.
\<close>

theorem time_control_other_shapes_counterexample:
  "spec_time_control_shape ''x/5y'' = None
   \<and> check_time_control ''x/5y'' [\<lparr>tag_string = ''5'', operator = EQUAL_TO\<rparr>]
   \<and> spec_time_control_shape ''+5'' = None
   \<and> check_time_control ''+5'' [\<lparr>tag_string = ''5'', operator = EQUAL_TO\<rparr>]
   \<and> spec_time_control_shape ''40/7200+30'' = None
   \<and> check_time_control ''40/7200+30'' [\<lparr>tag_string = ''40'', operator = EQUAL_TO\<rparr>]"
  by (simp add: time_control_examples check_time_control_def lenient_reads
      check_time_period_def double_of_def)

text \<open>
  C7, amended. \<open>check_time_control\<close> depends on the text before the first colon only.
  It reads a period by four tests tried in order: when the control contains a plus
  sign, the unsigned number at its start; else when it begins with a star, the number
  after the star; else when it contains a slash, the number after the first slash; else
  when it is made of digits only, its value. It accepts exactly when the candidate is not
  empty, does not start with a question mark or a minus sign, a period is read and
  \<open>check_time_period\<close> accepts the first control with that period. Every control of one
  of the four shapes of the specification is read with the period of its shape. In
  \<open>check_time_period\<close> a criterion with an operator compares its number with the
  period and a criterion without one must be a prefix of the first control. The
  candidates that are empty, a question mark or a minus sign match no list. The first
  control of 40/7200:20/3600 is 40/7200 with period 7200, and 300+5 has period 300.
\<close>

theorem time_control_first_control_and_shapes:
  "(CHR '':'' \<notin> set first \<longrightarrow>
      check_time_control (first @ CHR '':'' # others) list = check_time_control first list)
   \<and> check_time_control tc_string list =
       (let control = takeWhile (\<lambda>c. c \<noteq> CHR '':'') tc_string
        in tc_string \<noteq> [] \<and> take 1 tc_string \<noteq> ''?'' \<and> take 1 tc_string \<noteq> ''-'' \<and>
           (\<exists>period.
              (if CHR ''+'' \<in> set control then sscanf_u control
               else if take 1 control = ''*'' then sscanf_u (tl control)
               else if CHR ''/'' \<in> set control
                 then sscanf_u (tl (dropWhile (\<lambda>c. c \<noteq> CHR ''/'') control))
               else if control \<noteq> [] \<and> list_all isdigit control then sscanf_u control
               else None) = Some period
              \<and> check_time_period control period list))
   \<and> (spec_time_control_shape (takeWhile (\<lambda>c. c \<noteq> CHR '':'') tc_string) = Some shape_period \<longrightarrow>
        check_time_control tc_string list
          = check_time_period (takeWhile (\<lambda>c. c \<noteq> CHR '':'') tc_string) shape_period list)
   \<and> check_time_period control period list =
       (\<exists>sel\<in>set list.
          if operator sel = NONE then (\<exists>rest. control = tag_string sel @ rest)
          else (\<exists>list_period. sscanf_u (tag_string sel) = Some list_period
                  \<and> relative_numeric_match (operator sel) (double_of period)
                       (double_of list_period)))
   \<and> \<not> check_time_control [] list
   \<and> \<not> check_time_control ''?'' list
   \<and> \<not> check_time_control ''-'' list
   \<and> spec_time_control_shape ''40/7200'' = Some 7200
   \<and> check_time_control ''40/7200:20/3600'' list = check_time_period ''40/7200'' 7200 list
   \<and> spec_time_control_shape ''300+5'' = Some 300
   \<and> check_time_control ''300+5'' list = check_time_period ''300+5'' 300 list"
proof -
  have first: "CHR '':'' \<notin> set first \<longrightarrow>
      check_time_control (first @ CHR '':'' # others) list = check_time_control first list"
    using check_time_control_first_control by blast
  have shape: "spec_time_control_shape (takeWhile (\<lambda>c. c \<noteq> CHR '':'') tc_string) = Some shape_period \<longrightarrow>
        check_time_control tc_string list
          = check_time_period (takeWhile (\<lambda>c. c \<noteq> CHR '':'') tc_string) shape_period list"
    using check_time_control_of_shape by blast
  have never: "\<not> check_time_control [] list \<and> \<not> check_time_control ''?'' list
      \<and> \<not> check_time_control ''-'' list"
    by (simp add: check_time_control_def)
  have ex1: "check_time_control ''40/7200:20/3600'' list = check_time_period ''40/7200'' 7200 list"
    using check_time_control_of_shape[of "''40/7200:20/3600''" 7200 list]
    by (simp add: time_control_examples)
  have ex2: "check_time_control ''300+5'' list = check_time_period ''300+5'' 300 list"
    using check_time_control_of_shape[of "''300+5''" 300 list]
    by (simp add: time_control_examples)
  show ?thesis
    using first check_time_control_tests[of tc_string list] shape
      check_time_period_any[of control period list] never ex1 ex2 time_control_examples(1,2)
    by (intro conjI) blast+
qed

theorem time_control_first_control_and_shapes_witness:
  "check_time_control ''*180:60+2'' [\<lparr>tag_string = ''200'', operator = LESS_THAN\<rparr>]
     = check_time_control ''*180'' [\<lparr>tag_string = ''200'', operator = LESS_THAN\<rparr>]
   \<and> check_time_period ''*180'' 180 [\<lparr>tag_string = ''200'', operator = LESS_THAN\<rparr>]
   \<and> check_time_control ''*180:60+2'' [\<lparr>tag_string = ''200'', operator = LESS_THAN\<rparr>]"
proof -
  have c: "CHR '':'' \<notin> set ''*180''" by simp
  have "sscanf_u ''200'' = Some 200"
    by (simp add: sscanf_u_def scan_u_def isdigit_def isspace_def)
  then have p: "\<exists>sel\<in>set [\<lparr>tag_string = ''200'', operator = LESS_THAN\<rparr>].
      if operator sel = NONE then (\<exists>rest. ''*180'' = tag_string sel @ rest)
      else (\<exists>list_period. sscanf_u (tag_string sel) = Some list_period
              \<and> relative_numeric_match (operator sel) (double_of 180) (double_of list_period))"
    by (simp add: double_of_def)
  have s: "spec_time_control_shape (takeWhile (\<lambda>c. c \<noteq> CHR '':'') ''*180:60+2'') = Some 180"
    by (simp add: spec_time_control_shape_def all_digits_def decimal_value_def isdigit_def)
  note w = time_control_first_control_and_shapes[where first = "''*180''" and others = "''60+2''"
      and list = "[\<lparr>tag_string = ''200'', operator = LESS_THAN\<rparr>]"
      and tc_string = "''*180:60+2''" and shape_period = 180
      and control = "''*180''" and period = 180]
  from w c have 1: "check_time_control (''*180'' @ CHR '':'' # ''60+2'')
        [\<lparr>tag_string = ''200'', operator = LESS_THAN\<rparr>]
      = check_time_control ''*180'' [\<lparr>tag_string = ''200'', operator = LESS_THAN\<rparr>]"
    by blast
  from w p have 2: "check_time_period ''*180'' 180 [\<lparr>tag_string = ''200'', operator = LESS_THAN\<rparr>]"
    by blast
  from w s have "check_time_control ''*180:60+2'' [\<lparr>tag_string = ''200'', operator = LESS_THAN\<rparr>]
      = check_time_period (takeWhile (\<lambda>c. c \<noteq> CHR '':'') ''*180:60+2'') 180
          [\<lparr>tag_string = ''200'', operator = LESS_THAN\<rparr>]"
    by blast
  then have 3: "check_time_control ''*180:60+2'' [\<lparr>tag_string = ''200'', operator = LESS_THAN\<rparr>]"
    using 2 by simp
  from 1 2 3 show ?thesis by simp
qed

subsection \<open>Date matching\<close>

lemma check_date_loop_append:
  "check_date_loop d gy e i (xs @ ys) w =
     check_date_loop d gy e (i + length xs) ys (check_date_loop d gy e i xs w)"
  by (induction xs arbitrary: i w) simp_all

lemma check_date_step_letter_b:
  assumes "take 1 p \<noteq> ''a''" "take 1 p \<noteq> ''b''"
  shows "check_date_step d gy e i \<lparr>tag_string = CHR ''b'' # p, operator = opr\<rparr> w =
         check_date_step d gy e i \<lparr>tag_string = p, operator = LESS_THAN\<rparr> w"
  using assms by (cases p) (simp_all add: check_date_step_def)

lemma check_date_step_letter_a:
  assumes "take 1 p \<noteq> ''a''" "take 1 p \<noteq> ''b''"
  shows "check_date_step d gy e i \<lparr>tag_string = CHR ''a'' # p, operator = opr\<rparr> w =
         check_date_step d gy e i \<lparr>tag_string = p, operator = GREATER_THAN\<rparr> w"
  using assms by (cases p) (simp_all add: check_date_step_def)

lemma check_date_replace:
  assumes "\<And>gy e i w. check_date_step d gy e i sel w = check_date_step d gy e i sel' w"
  shows "check_date d (before @ sel # after) = check_date d (before @ sel' # after)"
  using assms
  by (simp add: check_date_def check_date_loop_append split: option.splits prod.splits)

lemma first_char_letter:
  "((case pat of [] \<Rightarrow> CHR 0x00 | c # r \<Rightarrow> c) = CHR ''b'') = (take 1 pat = ''b'')"
  "((case pat of [] \<Rightarrow> CHR 0x00 | c # r \<Rightarrow> c) = CHR ''a'') = (take 1 pat = ''a'')"
  by (cases pat; simp)+

text \<open>
  A criterion that is not the first: a relational one is joined by AND, a plain one by
  OR, with what the single criterion would give as the first of a list.
\<close>

lemma check_date_step_later:
  assumes "i \<noteq> 0"
  shows "check_date_step d gy e i sel w =
     (if operator sel \<noteq> NONE \<or> take 1 (tag_string sel) = ''a'' \<or> take 1 (tag_string sel) = ''b''
      then w \<and> check_date_step d gy e 0 sel False
      else w \<or> check_date_step d gy e 0 sel False)"
  using assms
  by (auto simp: check_date_step_def first_char_letter Let_def split: option.splits prod.splits)

lemma check_date_later:
  assumes "list \<noteq> []"
  shows "check_date d (list @ [sel]) =
     (if operator sel \<noteq> NONE \<or> take 1 (tag_string sel) = ''a'' \<or> take 1 (tag_string sel) = ''b''
      then check_date d list \<and> check_date d [sel]
      else check_date d list \<or> check_date d [sel])"
proof (cases "sscanf_u d")
  case None
  then show ?thesis by (simp add: check_date_def)
next
  case (Some gy)
  obtain gm gd where md: "sscanf_month_day d (1, 1) = (gm, gd)"
    by (cases "sscanf_month_day d (1, 1)")
  have n: "length list \<noteq> 0" using assms by simp
  show ?thesis
    using Some md check_date_step_later[OF n, of d gy _ sel]
    by (simp add: check_date_def check_date_loop_append)
qed

lemma check_date_single:
  "check_date d [sel] =
     (let pat = tag_string sel;
          opr = (if take 1 pat = ''b'' then LESS_THAN
                 else if take 1 pat = ''a'' then GREATER_THAN else operator sel);
          stripped = (if take 1 pat = ''b'' \<or> take 1 pat = ''a'' then tl pat else pat)
      in if opr \<noteq> NONE then
           (\<exists>game_year list_year.
              sscanf_u d = Some game_year \<and> sscanf_u stripped = Some list_year
              \<and> game_year > MINDATE \<and> game_year < MAXDATE
              \<and> relative_numeric_match opr
                   (double_of (10000 * game_year + 100 * fst (sscanf_month_day d (1, 1))
                      + snd (sscanf_month_day d (1, 1))))
                   (double_of (10000 * list_year + 100 * fst (sscanf_month_day stripped (1, 1))
                      + snd (sscanf_month_day stripped (1, 1)))))
         else (\<exists>game_year. sscanf_u d = Some game_year) \<and> (\<exists>suffix. d = stripped @ suffix))"
proof -
  define pat where "pat = tag_string sel"
  define opr where "opr = (if take 1 pat = ''b'' then LESS_THAN
                 else if take 1 pat = ''a'' then GREATER_THAN else operator sel)"
  define stripped where "stripped = (if take 1 pat = ''b'' \<or> take 1 pat = ''a'' then tl pat else pat)"
  obtain gm gd where g: "sscanf_month_day d (1, 1) = (gm, gd)"
    by (cases "sscanf_month_day d (1, 1)")
  obtain lm ld where l: "sscanf_month_day stripped (1, 1) = (lm, ld)"
    by (cases "sscanf_month_day stripped (1, 1)")
  have step: "check_date_step d gy e 0 sel False =
     (if opr \<noteq> NONE then
        (case sscanf_u stripped of
           Some list_year \<Rightarrow>
             gy > MINDATE \<and> gy < MAXDATE
             \<and> relative_numeric_match opr e (double_of (10000 * list_year + 100 * lm + ld))
         | None \<Rightarrow> False)
      else strncmp_eq d stripped (length stripped))" for gy e
    using l unfolding check_date_step_def first_char_letter opr_def stripped_def pat_def Let_def
    by (auto split: option.splits)
  have "check_date d [sel] =
     (if opr \<noteq> NONE then
       (\<exists>game_year list_year.
              sscanf_u d = Some game_year \<and> sscanf_u stripped = Some list_year
              \<and> game_year > MINDATE \<and> game_year < MAXDATE
              \<and> relative_numeric_match opr
                   (double_of (10000 * game_year + 100 * fst (sscanf_month_day d (1, 1))
                      + snd (sscanf_month_day d (1, 1))))
                   (double_of (10000 * list_year + 100 * fst (sscanf_month_day stripped (1, 1))
                      + snd (sscanf_month_day stripped (1, 1)))))
      else (\<exists>game_year. sscanf_u d = Some game_year) \<and> (\<exists>suffix. d = stripped @ suffix))"
    using g l
    by (cases "sscanf_u d"; cases "sscanf_u stripped")
       (auto simp: check_date_def step strncmp_eq_prefix)
  then show ?thesis unfolding Let_def opr_def stripped_def pat_def .
qed

lemma scan_date_examples:
  "sscanf_u ''1995.06.01'' = Some 1995" "sscanf_month_day ''1995.06.01'' (1, 1) = (6, 1)"
  "sscanf_u ''2005.01.01'' = Some 2005" "sscanf_month_day ''2005.01.01'' (1, 1) = (1, 1)"
  "sscanf_u ''1985.01.01'' = Some 1985" "sscanf_month_day ''1985.01.01'' (1, 1) = (1, 1)"
  "sscanf_u ''1990'' = Some 1990" "sscanf_month_day ''1990'' (1, 1) = (1, 1)"
  "sscanf_u ''2000'' = Some 2000" "sscanf_month_day ''2000'' (1, 1) = (1, 1)"
  by (simp_all add: sscanf_u_def sscanf_month_day_def scan_u_def isdigit_def isspace_def)

lemma check_date_examples:
  "check_date ''1995.06.01'' [\<lparr>tag_string = ''1990'', operator = GREATER_THAN\<rparr>,
                             \<lparr>tag_string = ''2000'', operator = LESS_THAN\<rparr>]"
  "\<not> check_date ''2005.01.01'' [\<lparr>tag_string = ''1990'', operator = GREATER_THAN\<rparr>,
                               \<lparr>tag_string = ''2000'', operator = LESS_THAN\<rparr>]"
  "\<not> check_date ''1985.01.01'' [\<lparr>tag_string = ''1990'', operator = GREATER_THAN\<rparr>,
                               \<lparr>tag_string = ''2000'', operator = LESS_THAN\<rparr>]"
  by (simp_all add: check_date_def check_date_step_def scan_date_examples double_of_def
      MINDATE_def MAXDATE_def)

text \<open>
  C5. \<open>check_date\<close> is determined criterion by criterion. A pattern that starts with
  the letter b is evaluated as less-than on the rest of the pattern, one that starts
  with a as greater-than on the rest, and any other pattern with its stored operator.
  A single criterion, which seeds the result, succeeds as follows: under a relational
  operator, when both years can be read, the year of the game lies between 100 and
  3000 and the operator holds between the two encoded dates; under no operator, when
  the year of the game can be read and the pattern is a prefix of the date. A criterion
  that is not the first is combined with the result of the criteria before it by AND
  when it is relational and by OR when it is plain; the empty list rejects. With the
  criteria greater than 1990 and less than 2000 the date 1995.06.01 is accepted, and
  2005.01.01 and 1985.01.01 are rejected.
\<close>

theorem check_date_letters_and_conjunction:
  "check_date d [] = False
   \<and> check_date d [sel] =
       (let pat = tag_string sel;
            opr = (if take 1 pat = ''b'' then LESS_THAN
                   else if take 1 pat = ''a'' then GREATER_THAN else operator sel);
            stripped = (if take 1 pat = ''b'' \<or> take 1 pat = ''a'' then tl pat else pat)
        in if opr \<noteq> NONE then
             (\<exists>game_year list_year.
                sscanf_u d = Some game_year \<and> sscanf_u stripped = Some list_year
                \<and> game_year > MINDATE \<and> game_year < MAXDATE
                \<and> relative_numeric_match opr
                     (double_of (10000 * game_year + 100 * fst (sscanf_month_day d (1, 1))
                        + snd (sscanf_month_day d (1, 1))))
                     (double_of (10000 * list_year + 100 * fst (sscanf_month_day stripped (1, 1))
                        + snd (sscanf_month_day stripped (1, 1)))))
           else (\<exists>game_year. sscanf_u d = Some game_year) \<and> (\<exists>suffix. d = stripped @ suffix))
   \<and> (list \<noteq> [] \<longrightarrow>
        check_date d (list @ [sel]) =
          (if operator sel \<noteq> NONE \<or> take 1 (tag_string sel) = ''a''
              \<or> take 1 (tag_string sel) = ''b''
           then check_date d list \<and> check_date d [sel]
           else check_date d list \<or> check_date d [sel]))
   \<and> (take 1 p \<noteq> ''a'' \<and> take 1 p \<noteq> ''b'' \<longrightarrow>
      check_date d (before @ \<lparr>tag_string = CHR ''b'' # p, operator = opr\<rparr> # after)
        = check_date d (before @ \<lparr>tag_string = p, operator = LESS_THAN\<rparr> # after)
      \<and> check_date d (before @ \<lparr>tag_string = CHR ''a'' # p, operator = opr\<rparr> # after)
        = check_date d (before @ \<lparr>tag_string = p, operator = GREATER_THAN\<rparr> # after))
   \<and> check_date ''1995.06.01'' [\<lparr>tag_string = ''1990'', operator = GREATER_THAN\<rparr>,
                                 \<lparr>tag_string = ''2000'', operator = LESS_THAN\<rparr>]
   \<and> \<not> check_date ''2005.01.01'' [\<lparr>tag_string = ''1990'', operator = GREATER_THAN\<rparr>,
                                   \<lparr>tag_string = ''2000'', operator = LESS_THAN\<rparr>]
   \<and> \<not> check_date ''1985.01.01'' [\<lparr>tag_string = ''1990'', operator = GREATER_THAN\<rparr>,
                                   \<lparr>tag_string = ''2000'', operator = LESS_THAN\<rparr>]"
proof -
  have empty: "check_date d [] = False"
    by (simp add: check_date_def split: option.splits prod.splits)
  have letters: "check_date d (before @ \<lparr>tag_string = CHR ''b'' # p, operator = opr\<rparr> # after)
        = check_date d (before @ \<lparr>tag_string = p, operator = LESS_THAN\<rparr> # after)
      \<and> check_date d (before @ \<lparr>tag_string = CHR ''a'' # p, operator = opr\<rparr> # after)
        = check_date d (before @ \<lparr>tag_string = p, operator = GREATER_THAN\<rparr> # after)"
    if "take 1 p \<noteq> ''a'' \<and> take 1 p \<noteq> ''b''"
    using that check_date_replace[of d _ _ before after]
      check_date_step_letter_a[of p d] check_date_step_letter_b[of p d]
    by blast
  have later: "list \<noteq> [] \<longrightarrow>
        check_date d (list @ [sel]) =
          (if operator sel \<noteq> NONE \<or> take 1 (tag_string sel) = ''a''
              \<or> take 1 (tag_string sel) = ''b''
           then check_date d list \<and> check_date d [sel]
           else check_date d list \<or> check_date d [sel])"
    using check_date_later[of list d sel] by blast
  show ?thesis
    using empty check_date_single[of d sel] later letters check_date_examples
    by (intro conjI impI) blast+
qed

theorem check_date_letters_and_conjunction_witness:
  "check_date ''1995.06.01'' [\<lparr>tag_string = ''b2000'', operator = NONE\<rparr>]
     = check_date ''1995.06.01'' [\<lparr>tag_string = ''2000'', operator = LESS_THAN\<rparr>]
   \<and> check_date ''1995.06.01'' [\<lparr>tag_string = ''1995'', operator = NONE\<rparr>]
   \<and> check_date ''1995.06.01'' [\<lparr>tag_string = ''1990'', operator = GREATER_THAN\<rparr>,
                                 \<lparr>tag_string = ''2000'', operator = LESS_THAN\<rparr>]
     = (check_date ''1995.06.01'' [\<lparr>tag_string = ''1990'', operator = GREATER_THAN\<rparr>]
        \<and> check_date ''1995.06.01'' [\<lparr>tag_string = ''2000'', operator = LESS_THAN\<rparr>])
   \<and> check_date ''1995.06.01'' [\<lparr>tag_string = ''2000'', operator = GREATER_THAN\<rparr>,
                                 \<lparr>tag_string = ''1995'', operator = NONE\<rparr>]
     = (check_date ''1995.06.01'' [\<lparr>tag_string = ''2000'', operator = GREATER_THAN\<rparr>]
        \<or> check_date ''1995.06.01'' [\<lparr>tag_string = ''1995'', operator = NONE\<rparr>])"
proof -
  note w1 = check_date_letters_and_conjunction[where d = "''1995.06.01''" and p = "''2000''"
      and before = "[]" and after = "[]" and opr = NONE
      and sel = "\<lparr>tag_string = ''2000'', operator = LESS_THAN\<rparr>"
      and list = "[\<lparr>tag_string = ''1990'', operator = GREATER_THAN\<rparr>]"]
  note w2 = check_date_letters_and_conjunction[where d = "''1995.06.01''" and p = "''2000''"
      and before = "[]" and after = "[]" and opr = NONE
      and sel = "\<lparr>tag_string = ''1995'', operator = NONE\<rparr>"
      and list = "[\<lparr>tag_string = ''2000'', operator = GREATER_THAN\<rparr>]"]
  have h: "take 1 ''2000'' \<noteq> ''a'' \<and> take 1 ''2000'' \<noteq> ''b''" by simp
  from w1 h have "check_date ''1995.06.01''
        ([] @ \<lparr>tag_string = CHR ''b'' # ''2000'', operator = NONE\<rparr> # [])
      = check_date ''1995.06.01'' ([] @ \<lparr>tag_string = ''2000'', operator = LESS_THAN\<rparr> # [])"
    by blast
  then have 1: "check_date ''1995.06.01'' [\<lparr>tag_string = ''b2000'', operator = NONE\<rparr>]
     = check_date ''1995.06.01'' [\<lparr>tag_string = ''2000'', operator = LESS_THAN\<rparr>]"
    by simp
  from w2 have "check_date ''1995.06.01'' [\<lparr>tag_string = ''1995'', operator = NONE\<rparr>]
      = ((\<exists>game_year. sscanf_u ''1995.06.01'' = Some game_year)
         \<and> (\<exists>suffix. ''1995.06.01'' = ''1995'' @ suffix))"
    by (simp add: Let_def)
  then have 2: "check_date ''1995.06.01'' [\<lparr>tag_string = ''1995'', operator = NONE\<rparr>]"
    by (simp add: scan_date_examples)
  have n1: "[\<lparr>tag_string = ''1990'', operator = GREATER_THAN\<rparr>] \<noteq> []"
    and n2: "[\<lparr>tag_string = ''2000'', operator = GREATER_THAN\<rparr>] \<noteq> []"
    by simp_all
  from w1 n1 have "check_date ''1995.06.01'' ([\<lparr>tag_string = ''1990'', operator = GREATER_THAN\<rparr>]
        @ [\<lparr>tag_string = ''2000'', operator = LESS_THAN\<rparr>])
     = (if operator \<lparr>tag_string = ''2000'', operator = LESS_THAN\<rparr> \<noteq> NONE
           \<or> take 1 (tag_string \<lparr>tag_string = ''2000'', operator = LESS_THAN\<rparr>) = ''a''
           \<or> take 1 (tag_string \<lparr>tag_string = ''2000'', operator = LESS_THAN\<rparr>) = ''b''
        then check_date ''1995.06.01'' [\<lparr>tag_string = ''1990'', operator = GREATER_THAN\<rparr>]
           \<and> check_date ''1995.06.01'' [\<lparr>tag_string = ''2000'', operator = LESS_THAN\<rparr>]
        else check_date ''1995.06.01'' [\<lparr>tag_string = ''1990'', operator = GREATER_THAN\<rparr>]
           \<or> check_date ''1995.06.01'' [\<lparr>tag_string = ''2000'', operator = LESS_THAN\<rparr>])"
    by blast
  then have 3: "check_date ''1995.06.01'' [\<lparr>tag_string = ''1990'', operator = GREATER_THAN\<rparr>,
                                 \<lparr>tag_string = ''2000'', operator = LESS_THAN\<rparr>]
     = (check_date ''1995.06.01'' [\<lparr>tag_string = ''1990'', operator = GREATER_THAN\<rparr>]
        \<and> check_date ''1995.06.01'' [\<lparr>tag_string = ''2000'', operator = LESS_THAN\<rparr>])"
    by simp
  from w2 n2 have "check_date ''1995.06.01'' ([\<lparr>tag_string = ''2000'', operator = GREATER_THAN\<rparr>]
        @ [\<lparr>tag_string = ''1995'', operator = NONE\<rparr>])
     = (if operator \<lparr>tag_string = ''1995'', operator = NONE\<rparr> \<noteq> NONE
           \<or> take 1 (tag_string \<lparr>tag_string = ''1995'', operator = NONE\<rparr>) = ''a''
           \<or> take 1 (tag_string \<lparr>tag_string = ''1995'', operator = NONE\<rparr>) = ''b''
        then check_date ''1995.06.01'' [\<lparr>tag_string = ''2000'', operator = GREATER_THAN\<rparr>]
           \<and> check_date ''1995.06.01'' [\<lparr>tag_string = ''1995'', operator = NONE\<rparr>]
        else check_date ''1995.06.01'' [\<lparr>tag_string = ''2000'', operator = GREATER_THAN\<rparr>]
           \<or> check_date ''1995.06.01'' [\<lparr>tag_string = ''1995'', operator = NONE\<rparr>])"
    by blast
  then have 4: "check_date ''1995.06.01'' [\<lparr>tag_string = ''2000'', operator = GREATER_THAN\<rparr>,
                                 \<lparr>tag_string = ''1995'', operator = NONE\<rparr>]
     = (check_date ''1995.06.01'' [\<lparr>tag_string = ''2000'', operator = GREATER_THAN\<rparr>]
        \<or> check_date ''1995.06.01'' [\<lparr>tag_string = ''1995'', operator = NONE\<rparr>])"
    by simp
  from 1 2 3 4 show ?thesis by blast
qed

subsection \<open>The record selector\<close>

text \<open>Registering the plain pattern Smith for the white player, from the initial state.\<close>

lemma example_registration:
  "add_tag_to_list example_tags (WHITE_TAG example_tags) ''Smith'' NONE
     (\<lparr>use_soundex = False, tag_match_anywhere = False, check_tags = False\<rparr>,
      init_tag_lists example_tags)
   = Inr (\<lparr>use_soundex = False, tag_match_anywhere = False, check_tags = True\<rparr>,
          \<lparr>TagLists = (\<lambda>i. [])(WHITE_TAG example_tags :=
                         [\<lparr>tag_string = ''Smith'', operator = NONE\<rparr>]),
           tag_list_length = 13\<rparr>)"
  by (simp add: add_tag_to_list_def example_tags_def init_tag_lists_def add_to_taglist_def
      soundex_tag_def Let_def)

lemma smith_matches:
  "check_list plat example_tags \<lparr>use_soundex = False, tag_match_anywhere = False, check_tags = True\<rparr>
     3 ''Smith, John'' [\<lparr>tag_string = ''Smith'', operator = NONE\<rparr>]"
  by (simp add: check_list_def strncmp_eq_def)

lemma smith_accepted:
  "check_tag_details_not_ECO plat example_tags
     \<lparr>use_soundex = False, tag_match_anywhere = False, check_tags = True\<rparr>
     \<lparr>TagLists = (\<lambda>i. [])(WHITE_TAG example_tags :=
                    [\<lparr>tag_string = ''Smith'', operator = NONE\<rparr>]),
      tag_list_length = 13\<rparr>
     ((\<lambda>i. None)(WHITE_TAG example_tags := Some ''Smith, John'')) 14 = Inr True"
  by (simp add: check_tag_details_not_ECO_def either_player_clause_def either_elo_clause_def
      check_tag_def example_tags_def smith_matches[unfolded example_tags_def])

text \<open>
  C9. While the flag \<^verbatim>\<open>check_tags\<close> is unset, which is the case as long as no
  criterion has been registered, \<open>check_tag_details_not_ECO\<close> and \<open>check_ECO_tag\<close>
  accept every record, whatever fields it has.
\<close>

theorem no_criteria_accepts_everything:
  "\<not> check_tags gs \<longrightarrow>
     check_tag_details_not_ECO plat tc gs ls Details num_details = Inr True
     \<and> check_ECO_tag plat tc gs ls Details"
  by (simp add: check_tag_details_not_ECO_def check_ECO_tag_def)

theorem no_criteria_accepts_everything_witness:
  "check_tag_details_not_ECO example_platform example_tags
     \<lparr>use_soundex = False, tag_match_anywhere = False, check_tags = False\<rparr>
     (init_tag_lists example_tags) (\<lambda>i. None) 13 = Inr True
   \<and> check_ECO_tag example_platform example_tags
       \<lparr>use_soundex = False, tag_match_anywhere = False, check_tags = False\<rparr>
       (init_tag_lists example_tags) (\<lambda>i. None)"
proof -
  have "\<not> check_tags \<lparr>use_soundex = False, tag_match_anywhere = False, check_tags = False\<rparr>"
    by simp
  then show ?thesis
    using no_criteria_accepts_everything[of
        "\<lparr>use_soundex = False, tag_match_anywhere = False, check_tags = False\<rparr>"
        example_platform example_tags "init_tag_lists example_tags" "\<lambda>i. None" 13]
    by blast
qed

text \<open>
  C4 as stated fails: with 13 tag codes in the registry and a supplied count of 14 the
  record is evaluated, and here accepted.
\<close>

theorem tag_count_larger_counterexample:
  "tag_list_length
     \<lparr>TagLists = (\<lambda>i. [])(WHITE_TAG example_tags :=
                    [\<lparr>tag_string = ''Smith'', operator = NONE\<rparr>]),
      tag_list_length = 13\<rparr> \<noteq> 14
   \<and> check_tag_details_not_ECO example_platform example_tags
       \<lparr>use_soundex = False, tag_match_anywhere = False, check_tags = True\<rparr>
       \<lparr>TagLists = (\<lambda>i. [])(WHITE_TAG example_tags :=
                      [\<lparr>tag_string = ''Smith'', operator = NONE\<rparr>]),
        tag_list_length = 13\<rparr>
       ((\<lambda>i. None)(WHITE_TAG example_tags := Some ''Smith, John'')) 14 = Inr True"
  using smith_accepted[of example_platform] by simp

text \<open>
  C4, amended. With criteria registered, \<open>check_tag_details_not_ECO\<close> ends the process
  exactly when the supplied tag count is smaller than \<^verbatim>\<open>tag_list_length\<close>; with a
  count equal to it or larger the record is evaluated and a verdict is returned.
\<close>

theorem tag_count_smaller_is_fatal:
  "check_tags gs \<longrightarrow>
     ((check_tag_details_not_ECO plat tc gs ls Details num_details = Inl Exit_1)
        = (num_details < tag_list_length ls))
     \<and> (tag_list_length ls \<le> num_details \<longrightarrow>
          (\<exists>wanted. check_tag_details_not_ECO plat tc gs ls Details num_details = Inr wanted))"
  by (simp add: check_tag_details_not_ECO_def)

theorem tag_count_smaller_is_fatal_witness:
  "check_tag_details_not_ECO example_platform example_tags
     \<lparr>use_soundex = False, tag_match_anywhere = False, check_tags = True\<rparr>
     \<lparr>TagLists = (\<lambda>i. [])(WHITE_TAG example_tags :=
                    [\<lparr>tag_string = ''Smith'', operator = NONE\<rparr>]),
      tag_list_length = 13\<rparr>
     ((\<lambda>i. None)(WHITE_TAG example_tags := Some ''Smith, John'')) 12 = Inl Exit_1
   \<and> check_tag_details_not_ECO example_platform example_tags
     \<lparr>use_soundex = False, tag_match_anywhere = False, check_tags = True\<rparr>
     \<lparr>TagLists = (\<lambda>i. [])(WHITE_TAG example_tags :=
                    [\<lparr>tag_string = ''Smith'', operator = NONE\<rparr>]),
      tag_list_length = 13\<rparr>
     ((\<lambda>i. None)(WHITE_TAG example_tags := Some ''Smith, John'')) 13 \<noteq> Inl Exit_1"
proof -
  let ?gs = "\<lparr>use_soundex = False, tag_match_anywhere = False, check_tags = True\<rparr>"
  let ?ls = "\<lparr>TagLists = (\<lambda>i. [])(WHITE_TAG example_tags :=
                            [\<lparr>tag_string = ''Smith'', operator = NONE\<rparr>]),
              tag_list_length = 13\<rparr>"
  let ?D = "(\<lambda>i. None)(WHITE_TAG example_tags := Some ''Smith, John'')"
  have g: "check_tags ?gs" by simp
  have l: "(12 :: int) < tag_list_length ?ls" "\<not> (13 :: int) < tag_list_length ?ls" by simp_all
  from g l(1) tag_count_smaller_is_fatal[of ?gs example_platform example_tags ?ls ?D 12]
  have 1: "check_tag_details_not_ECO example_platform example_tags ?gs ?ls ?D 12 = Inl Exit_1"
    by blast
  from g l(2) tag_count_smaller_is_fatal[of ?gs example_platform example_tags ?ls ?D 13]
  have 2: "check_tag_details_not_ECO example_platform example_tags ?gs ?ls ?D 13 \<noteq> Inl Exit_1"
    by blast
  from 1 2 show ?thesis by blast
qed

text \<open>
  Registering Kasparov for the either-player tag and then at least 2700 for the
  either-rating tag, from the initial state.
\<close>

lemma either_tags_registration:
  "add_tag_to_list example_tags (PSEUDO_PLAYER_TAG example_tags) ''Kasparov'' NONE
     (\<lparr>use_soundex = False, tag_match_anywhere = False, check_tags = False\<rparr>,
      init_tag_lists example_tags)
   = Inr (\<lparr>use_soundex = False, tag_match_anywhere = False, check_tags = True\<rparr>,
          \<lparr>TagLists = (\<lambda>i. [])(PSEUDO_PLAYER_TAG example_tags :=
                         [\<lparr>tag_string = ''Kasparov'', operator = NONE\<rparr>]),
           tag_list_length = 13\<rparr>)"
  "add_tag_to_list example_tags (PSEUDO_ELO_TAG example_tags) ''2700'' GREATER_THAN_OR_EQUAL_TO
     (\<lparr>use_soundex = False, tag_match_anywhere = False, check_tags = True\<rparr>,
      \<lparr>TagLists = (\<lambda>i. [])(PSEUDO_PLAYER_TAG example_tags :=
                     [\<lparr>tag_string = ''Kasparov'', operator = NONE\<rparr>]),
       tag_list_length = 13\<rparr>)
   = Inr (\<lparr>use_soundex = False, tag_match_anywhere = False, check_tags = True\<rparr>,
          \<lparr>TagLists = (\<lambda>i. [])
             (PSEUDO_PLAYER_TAG example_tags :=
                [\<lparr>tag_string = ''Kasparov'', operator = NONE\<rparr>],
              PSEUDO_ELO_TAG example_tags :=
                [\<lparr>tag_string = ''2700'', operator = GREATER_THAN_OR_EQUAL_TO\<rparr>]),
           tag_list_length = 13\<rparr>)"
  by (simp_all add: add_tag_to_list_def example_tags_def init_tag_lists_def add_to_taglist_def
      soundex_tag_def Let_def)

lemma kasparov_absent:
  "\<not> check_list plat tc \<lparr>use_soundex = False, tag_match_anywhere = False, check_tags = True\<rparr>
       tag ''Karpov, Anatoly'' [\<lparr>tag_string = ''Kasparov'', operator = NONE\<rparr>]"
  "\<not> check_list plat tc \<lparr>use_soundex = False, tag_match_anywhere = False, check_tags = True\<rparr>
       tag ''Short, Nigel'' [\<lparr>tag_string = ''Kasparov'', operator = NONE\<rparr>]"
  by (simp_all add: check_list_def strncmp_eq_def Let_def)

lemma elo_2725:
  "check_elo ''2725'' [\<lparr>tag_string = ''2700'', operator = GREATER_THAN_OR_EQUAL_TO\<rparr>]"
proof -
  have "sscanf_u ''2725'' = Some 2725" "sscanf_u ''2700'' = Some 2700"
    by (simp_all add: sscanf_u_def scan_u_def isdigit_def isspace_def)
  then show ?thesis by (simp add: check_elo_def double_of_def)
qed

text \<open>
  C3 on the code. Neither player of the record is Kasparov, so the either-player
  clause sets \<^verbatim>\<open>wanted\<close> to false; the either-rating clause then assigns
  \<^verbatim>\<open>wanted\<close> anew from the ratings, and the record is accepted.
\<close>

theorem either_player_verdict_overwritten:
  "either_player_clause plat example_tags
     \<lparr>use_soundex = False, tag_match_anywhere = False, check_tags = True\<rparr>
     \<lparr>TagLists = (\<lambda>i. [])
        (PSEUDO_PLAYER_TAG example_tags := [\<lparr>tag_string = ''Kasparov'', operator = NONE\<rparr>],
         PSEUDO_ELO_TAG example_tags :=
           [\<lparr>tag_string = ''2700'', operator = GREATER_THAN_OR_EQUAL_TO\<rparr>]),
      tag_list_length = 13\<rparr>
     ((\<lambda>i. None)
        (WHITE_TAG example_tags := Some ''Karpov, Anatoly'',
         BLACK_TAG example_tags := Some ''Short, Nigel'',
         WHITE_ELO_TAG example_tags := Some ''2725'',
         BLACK_ELO_TAG example_tags := Some ''2660'')) True = False
   \<and> check_tag_details_not_ECO plat example_tags
     \<lparr>use_soundex = False, tag_match_anywhere = False, check_tags = True\<rparr>
     \<lparr>TagLists = (\<lambda>i. [])
        (PSEUDO_PLAYER_TAG example_tags := [\<lparr>tag_string = ''Kasparov'', operator = NONE\<rparr>],
         PSEUDO_ELO_TAG example_tags :=
           [\<lparr>tag_string = ''2700'', operator = GREATER_THAN_OR_EQUAL_TO\<rparr>]),
      tag_list_length = 13\<rparr>
     ((\<lambda>i. None)
        (WHITE_TAG example_tags := Some ''Karpov, Anatoly'',
         BLACK_TAG example_tags := Some ''Short, Nigel'',
         WHITE_ELO_TAG example_tags := Some ''2725'',
         BLACK_ELO_TAG example_tags := Some ''2660'')) 13 = Inr True"
proof -
  let ?gs = "\<lparr>use_soundex = False, tag_match_anywhere = False, check_tags = True\<rparr>"
  let ?ls = "\<lparr>TagLists = (\<lambda>i. [])
        (PSEUDO_PLAYER_TAG example_tags := [\<lparr>tag_string = ''Kasparov'', operator = NONE\<rparr>],
         PSEUDO_ELO_TAG example_tags :=
           [\<lparr>tag_string = ''2700'', operator = GREATER_THAN_OR_EQUAL_TO\<rparr>]),
      tag_list_length = 13\<rparr>"
  let ?D = "(\<lambda>i. None)
        (WHITE_TAG example_tags := Some ''Karpov, Anatoly'',
         BLACK_TAG example_tags := Some ''Short, Nigel'',
         WHITE_ELO_TAG example_tags := Some ''2725'',
         BLACK_ELO_TAG example_tags := Some ''2660'')"
  have player: "either_player_clause plat example_tags ?gs ?ls ?D True = False"
    by (simp add: either_player_clause_def example_tags_def kasparov_absent)
  have elo: "either_elo_clause example_tags ?ls ?D False = True"
    by (simp add: either_elo_clause_def example_tags_def elo_2725)
  have loop: "remaining_tags_loop plat example_tags ?gs ?ls ?D 0 True = True"
    by (simp add: check_tag_def example_tags_def)
  have "check_tag_details_not_ECO plat example_tags ?gs ?ls ?D 13 = Inr True"
    unfolding check_tag_details_not_ECO_def player elo using loop by simp
  with player show ?thesis by blast
qed

subsection \<open>The generic pattern matcher on the code\<close>

text \<open>
  C1 on the code. The candidate 123 is numeric-shaped and the only criterion carries
  the regex operator: the first loop requests the range check as well as the regex
  check, the relational pass leaves its seed \<^verbatim>\<open>TRUE\<close> untouched, and the regex
  pass, which alone would reject on a platform where no expression matches, is not
  run. The verdict is a match on every platform.
\<close>

theorem regex_only_list_numeric_candidate:
  "check_list_plain \<lparr>use_soundex = False, tag_match_anywhere = False, check_tags = True\<rparr>
     ''123'' (tag_string_is_numeric ''123'') [\<lparr>tag_string = ''^abc'', operator = REGEX\<rparr>]
     (False, False, False) = (False, True, True)
   \<and> check_list_regex example_platform ''123'' [\<lparr>tag_string = ''^abc'', operator = REGEX\<rparr>] False
       = False
   \<and> check_list plat tc \<lparr>use_soundex = False, tag_match_anywhere = False, check_tags = True\<rparr>
       tag ''123'' [\<lparr>tag_string = ''^abc'', operator = REGEX\<rparr>] = True"
proof -
  have n: "tag_string_is_numeric ''123'' = True"
    by (simp add: tag_string_is_numeric_def isdigit_def)
  have p: "check_list_plain \<lparr>use_soundex = False, tag_match_anywhere = False, check_tags = True\<rparr>
     ''123'' True [\<lparr>tag_string = ''^abc'', operator = REGEX\<rparr>]
     (False, False, False) = (False, True, True)"
    by (simp add: strncmp_eq_def Let_def)
  have r: "check_list_regex example_platform ''123'' [\<lparr>tag_string = ''^abc'', operator = REGEX\<rparr>] False
       = False"
    by (simp add: example_platform_def)
  have c: "check_list plat tc \<lparr>use_soundex = False, tag_match_anywhere = False, check_tags = True\<rparr>
       tag ''123'' [\<lparr>tag_string = ''^abc'', operator = REGEX\<rparr>] = True"
    unfolding check_list_def Let_def using n p by simp
  from n p r c show ?thesis by simp
qed

text \<open>
  C2 on the code. The first loop applies the prefix test to a criterion that carries
  the operator greater-than: the candidate 2700 matches the pattern 2700 as text,
  although 2700 is not greater than 2700.
\<close>

theorem relational_criterion_matched_as_text:
  "check_list_plain \<lparr>use_soundex = False, tag_match_anywhere = False, check_tags = True\<rparr>
     ''2700'' (tag_string_is_numeric ''2700'')
     [\<lparr>tag_string = ''2700'', operator = GREATER_THAN\<rparr>] (False, False, False)
     = (True, False, False)
   \<and> \<not> relative_numeric_match GREATER_THAN 2700 2700
   \<and> check_list plat tc \<lparr>use_soundex = False, tag_match_anywhere = False, check_tags = True\<rparr>
       tag ''2700'' [\<lparr>tag_string = ''2700'', operator = GREATER_THAN\<rparr>] = True"
proof -
  have p: "check_list_plain \<lparr>use_soundex = False, tag_match_anywhere = False, check_tags = True\<rparr>
     ''2700'' b [\<lparr>tag_string = ''2700'', operator = GREATER_THAN\<rparr>] (False, False, False)
     = (True, False, False)" for b
    by (simp add: strncmp_eq_def Let_def)
  have c: "check_list plat tc \<lparr>use_soundex = False, tag_match_anywhere = False, check_tags = True\<rparr>
       tag ''2700'' [\<lparr>tag_string = ''2700'', operator = GREATER_THAN\<rparr>] = True"
    by (simp add: check_list_def strncmp_eq_def Let_def)
  from p[of "tag_string_is_numeric ''2700''"] c show ?thesis by simp
qed

end
